theory Spec2Isabelle
  imports Complex_Main "HOL-Library.AList"
begin

section \<open>Exceptions\<close>

text \<open>
  Both scripts signal failure with Python exceptions. An exception is a value here; a
  function that may raise returns \<open>exn + 'a\<close> with \<open>Inl\<close> for the exception. A function
  that changes the outside world before it raises returns the changed world beside the
  result, because what it wrote stays written.
\<close>

datatype exn =
    DatabaseError string
  | KeyError string
  | TypeError string
  | AttributeError string
  | FileNotFoundError string
  | EmptyDataError string
  | OSError string
  | CsvError string
  | HTTPError nat string
  | RequestException string
  | JSONDecodeError string
  | OverflowError string
  | Exception string

text \<open>\<open>str(e)\<close>. A \<open>KeyError\<close> prints its key in quotes.\<close>

fun str_exn :: "exn \<Rightarrow> string" where
  "str_exn (DatabaseError m) = m"
| "str_exn (KeyError k) = [CHR 0x27] @ k @ [CHR 0x27]"
| "str_exn (TypeError m) = m"
| "str_exn (AttributeError m) = m"
| "str_exn (FileNotFoundError m) = m"
| "str_exn (EmptyDataError m) = m"
| "str_exn (OSError m) = m"
| "str_exn (CsvError m) = m"
| "str_exn (HTTPError code m) = m"
| "str_exn (RequestException m) = m"
| "str_exn (JSONDecodeError m) = m"
| "str_exn (OverflowError m) = m"
| "str_exn (Exception m) = m"

section \<open>Data\<close>

subsection \<open>Table cells and data frames\<close>

text \<open>
  A cell of a pandas column: missing (\<open>NaN\<close>, \<open>None\<close>, \<open>NaT\<close>, \<open>NA\<close>), a string, a
  number, a boolean or a timestamp. Floats are written as the rational number they
  denote; rounding to binary64 is outside the model. A timestamp is its distance from
  the Unix epoch in seconds.
\<close>

datatype num = NInt int | NFloat rat

datatype cell = CNull | CStr string | CNum num | CBool bool | CTime rat

text \<open>
  A data frame holds its columns in order, each with one cell per row. \<open>len(df)\<close> is
  \<open>nrows\<close>; a frame is well formed when every column has that many cells.
\<close>

record frame =
  nrows :: nat
  cols :: "(string \<times> cell list) list"


text \<open>One record of a written CSV file: the header record or a data record.\<close>

datatype line = Header "string list" | Row "cell list"

subsection \<open>JSON values and HTTP replies\<close>

datatype json =
    JNull
  | JBool bool
  | JNum rat
  | JStr string
  | JArr "json list"
  | JObj "(string \<times> json) list"

text \<open>A reply: its status code and its body, \<open>None\<close> when the body is not JSON.\<close>

record http_response =
  status_code :: nat
  body :: "json option"

subsection \<open>Rows of the control database\<close>

record file_row =
  fl_file_name :: string
  fl_status :: string
  fl_row_count :: "nat option"
  fl_error_message :: "string option"
  fl_last_updated :: "rat option"

record job_log =
  jl_log_id :: int
  jl_job_name :: string
  jl_start_time :: rat
  jl_end_time :: "rat option"
  jl_status :: string
  jl_message :: "string option"

subsection \<open>The world outside the scripts\<close>

text \<open>
  Everything the scripts read or write: the wall clock (in seconds since the Unix
  epoch, as timestamps are), the control database
  (\<open>job_definitions\<close>, \<open>configuration\<close>, \<open>job_logs\<close> with its id sequence, \<open>file_log\<close>),
  the staging table \<open>raw_flight_states\<close>, the raw-data and cleaned-data directories of
  the loader, the output directories and files of the extractor, and what the two HTTP
  endpoints do with this run's request: a reply, or no reply with the message of the
  connection failure.

  A database, staging or filesystem call can fail for reasons the scripts do not
  control. Each of \<open>db_faults\<close>, \<open>staging_faults\<close> and \<open>fs_faults\<close> lists what the next calls
  of that kind will do, first call first: \<open>None\<close> lets the call through, \<open>Some m\<close> makes it
  raise with message \<open>m\<close>; calls beyond the end of the list go through.
\<close>

record world =
  clock :: rat
  control_conn_error :: "string option"
  staging_engine_error :: "string option"
  db_faults :: "string option list"
  job_definitions :: "(string \<times> (string \<times> string) list) list"
  configuration :: "(string \<times> string) list"
  job_logs :: "job_log list"
  job_logs_seq :: nat
  file_log :: "file_row list"
  raw_flight_states :: "(string \<times> cell) list list"
  staging_faults :: "string option list"
  raw_data_dir :: "(string \<times> frame) list option"
  clean_data_dir :: "(string \<times> line list) list"
  token_reply :: "string + http_response"
  api_reply :: "string + http_response"
  fs_faults :: "string option list"
  out_dirs :: "string list"
  out_files :: "(string \<times> json list list) list"

text \<open>One statement sent over the control connection, with its commit.\<close>

definition db_execute :: "world \<Rightarrow> string option \<times> world" where
  "db_execute w =
     (case db_faults w of
        [] \<Rightarrow> (None, w)
      | f # fs \<Rightarrow> (f, w\<lparr>db_faults := fs\<rparr>))"

section \<open>The file ledger of the loader\<close>

text \<open>
  \<open>get_processed_files\<close>: the names whose status is not \<open>NEW\<close>. A database error is
  printed and the set stays empty.
\<close>

definition get_processed_files :: "world \<Rightarrow> world \<times> string set" where
  "get_processed_files w =
     (case db_execute w of
        (Some e, w') \<Rightarrow> (w', {})
      | (None, w') \<Rightarrow>
          (w', set (map fl_file_name (filter (\<lambda>r. fl_status r \<noteq> ''NEW'') (file_log w')))))"

text \<open>
  Modelled from the spec: the column defaults of table \<open>file_log\<close>, whose schema is not
  among the sources. The \<open>INSERT\<close> of \<open>register_new_files\<close> gives the file name only; the
  spec has a row created on first discovery with status \<open>NEW\<close>.
\<close>

definition new_file_row :: "string \<Rightarrow> file_row" where
  "new_file_row f =
     \<lparr>fl_file_name = f, fl_status = ''NEW'', fl_row_count = None,
      fl_error_message = None, fl_last_updated = None\<rparr>"

text \<open>\<open>INSERT ... ON CONFLICT (file_name) DO NOTHING\<close> for one name.\<close>

definition insert_file_name :: "file_row list \<Rightarrow> string \<Rightarrow> file_row list" where
  "insert_file_name tbl f =
     (if f \<in> set (map fl_file_name tbl) then tbl else tbl @ [new_file_row f])"

definition register_new_files :: "world \<Rightarrow> string list \<Rightarrow> world" where
  "register_new_files w new_files =
     (if new_files = [] then w
      else case db_execute w of
             (Some e, w') \<Rightarrow> w'
           | (None, w') \<Rightarrow> w'\<lparr>file_log := foldl insert_file_name (file_log w') new_files\<rparr>)"

text \<open>
  \<open>update_file_log\<close>: one \<open>UPDATE\<close> that sets four columns of every row with the given
  name. \<open>row_count\<close> and \<open>msg\<close> default to \<open>None\<close> in the source; here the caller writes
  them out. A database error is printed and rolled back, and nothing is raised.
\<close>

definition set_file_row :: "string \<Rightarrow> string \<Rightarrow> nat option \<Rightarrow> string option \<Rightarrow> rat
    \<Rightarrow> file_row \<Rightarrow> file_row" where
  "set_file_row file_name st row_count msg now r =
     (if fl_file_name r = file_name
      then r\<lparr>fl_status := st, fl_row_count := row_count, fl_error_message := msg,
             fl_last_updated := Some now\<rparr>
      else r)"

definition update_file_log :: "world \<Rightarrow> string \<Rightarrow> string \<Rightarrow> nat option \<Rightarrow> string option
    \<Rightarrow> world" where
  "update_file_log w file_name st row_count msg =
     (case db_execute w of
        (Some e, w') \<Rightarrow> w'
      | (None, w') \<Rightarrow>
          w'\<lparr>file_log := map (set_file_row file_name st row_count msg (clock w')) (file_log w')\<rparr>)"

text \<open>Discovery: \<open>os.listdir\<close> and the comprehension that keeps \<open>states_*.csv\<close>.\<close>

definition startswith :: "string \<Rightarrow> string \<Rightarrow> bool" where
  "startswith s p = (take (length p) s = p)"

definition endswith :: "string \<Rightarrow> string \<Rightarrow> bool" where
  "endswith s p = (length p \<le> length s \<and> drop (length s - length p) s = p)"

definition list_csv_files :: "world \<Rightarrow> exn + string list" where
  "list_csv_files w =
     (case raw_data_dir w of
        None \<Rightarrow> Inl (FileNotFoundError ''data'')
      | Some d \<Rightarrow>
          Inr (remdups (filter (\<lambda>f. startswith f ''states_'' \<and> endswith f ''.csv'') (map fst d))))"

text \<open>
  Discovery and registration as \<open>main\<close> runs them: list the directory, stop when it is
  missing or holds no matching file, subtract the processed names, register the rest.
  The source turns the difference of two sets into a list, in no fixed order; the model
  keeps the order of the listing.
\<close>

definition discover_and_register :: "world \<Rightarrow> world" where
  "discover_and_register w =
     (case list_csv_files w of
        Inl e \<Rightarrow> w
      | Inr csv_files \<Rightarrow>
          (if csv_files = [] then w
           else (case get_processed_files w of
                   (w1, processed) \<Rightarrow>
                     register_new_files w1 (filter (\<lambda>f. f \<notin> processed) csv_files))))"

section \<open>The transform of the loader\<close>

subsection \<open>What pandas and Python supply\<close>

text \<open>
  Seven pieces of library behaviour are taken as they come, as parameters of the model:
  which strings \<open>pd.to_numeric\<close> reads as a number, which strings \<open>pd.to_datetime\<close> with
  \<open>unit='s'\<close> reads as a number of seconds, how an integer beyond \<open>2^53\<close> is rounded to a
  float, how a fractional number of seconds is rounded to whole nanoseconds, how \<open>str\<close>
  prints a number and a timestamp, and how \<open>strftime("%Y%m%d_%H%M%S")\<close> prints the clock.
\<close>

record pylib =
  parse_numeric :: "string \<Rightarrow> num option"
  parse_epoch :: "string \<Rightarrow> rat option"
  round_float :: "int \<Rightarrow> rat"
  round_ns :: "rat \<Rightarrow> rat"
  str_num :: "num \<Rightarrow> string"
  str_time :: "rat \<Rightarrow> string"
  strftime :: "rat \<Rightarrow> string"

subsection \<open>The dtype of a column\<close>

text \<open>
  pandas converts a column as a whole, and what it does depends on the dtype of the
  column. \<open>pd.read_csv\<close> infers the dtype from the values of the chunk: \<open>bool\<close> for
  booleans only, \<open>int64\<close> for integers only, \<open>uint64\<close> when they are not negative and one
  is too large for \<open>int64\<close>, \<open>float64\<close> for numbers with a float or a missing value among
  them, \<open>object\<close> as soon as there is a string, and for a column of no values. A column is
  held here as the list of its values, each in its narrowest form, and its dtype is read
  off the values in the same way. Integers that fit neither integer dtype are Python
  integers in an \<open>object\<close> column. A column of timestamps and missing values is
  \<open>datetime64[ns]\<close>.
\<close>

datatype dtype = Dbool | Dint64 | Duint64 | Dfloat64 | Ddatetime64 | Dobject

definition in_int64 :: "int \<Rightarrow> bool" where
  "in_int64 i = (- 9223372036854775808 \<le> i \<and> i < 9223372036854775808)"

definition in_uint64 :: "int \<Rightarrow> bool" where
  "in_uint64 i = (0 \<le> i \<and> i < 18446744073709551616)"

fun is_bool :: "cell \<Rightarrow> bool" where
  "is_bool (CBool b) = True"
| "is_bool v = False"

fun is_int :: "cell \<Rightarrow> bool" where
  "is_int (CNum (NInt i)) = True"
| "is_int v = False"

fun is_int64 :: "cell \<Rightarrow> bool" where
  "is_int64 (CNum (NInt i)) = in_int64 i"
| "is_int64 v = False"

fun is_uint64 :: "cell \<Rightarrow> bool" where
  "is_uint64 (CNum (NInt i)) = in_uint64 i"
| "is_uint64 v = False"

fun is_number_or_null :: "cell \<Rightarrow> bool" where
  "is_number_or_null CNull = True"
| "is_number_or_null (CNum x) = True"
| "is_number_or_null v = False"

fun is_time_or_null :: "cell \<Rightarrow> bool" where
  "is_time_or_null CNull = True"
| "is_time_or_null (CTime t) = True"
| "is_time_or_null v = False"

definition dtype_of :: "cell list \<Rightarrow> dtype" where
  "dtype_of vs =
     (if vs = [] then Dobject
      else if list_all is_bool vs then Dbool
      else if list_all is_int64 vs then Dint64
      else if list_all is_uint64 vs then Duint64
      else if list_all is_int vs then Dobject
      else if list_all is_number_or_null vs then Dfloat64
      else if list_all is_time_or_null vs then Ddatetime64
      else Dobject)"

subsection \<open>\<open>pd.to_numeric(col, errors='coerce')\<close>\<close>

text \<open>
  Each value is read first: a string becomes the number it reads as, and a string that
  reads as none becomes missing instead of raising; so does a timestamp among other
  values.
\<close>

fun read_numeric :: "pylib \<Rightarrow> cell \<Rightarrow> cell" where
  "read_numeric L CNull = CNull"
| "read_numeric L (CStr s) = (case parse_numeric L s of None \<Rightarrow> CNull | Some x \<Rightarrow> CNum x)"
| "read_numeric L (CNum x) = CNum x"
| "read_numeric L (CBool b) = CBool b"
| "read_numeric L (CTime t) = CNull"

text \<open>
  Then the column gets one dtype. It is \<open>float64\<close> when a value is missing, is a float, is
  an integer outside both \<open>int64\<close> and \<open>uint64\<close>, or when a negative integer stands beside
  one above \<open>int64\<close>: integers and booleans become floats then. Else it is an integer dtype
  when there is an integer, and booleans become 0 and 1. A column of booleans only stays
  as it is.
\<close>

fun seen_float :: "cell \<Rightarrow> bool" where
  "seen_float CNull = True"
| "seen_float (CNum (NFloat x)) = True"
| "seen_float (CNum (NInt i)) = (\<not> in_int64 i \<and> \<not> in_uint64 i)"
| "seen_float v = False"

fun seen_sint :: "cell \<Rightarrow> bool" where
  "seen_sint (CNum (NInt i)) = (in_int64 i \<and> i < 0)"
| "seen_sint v = False"

fun seen_uint :: "cell \<Rightarrow> bool" where
  "seen_uint (CNum (NInt i)) = (in_uint64 i \<and> \<not> in_int64 i)"
| "seen_uint v = False"

definition float_of_int :: "pylib \<Rightarrow> int \<Rightarrow> rat" where
  "float_of_int L i = (if \<bar>i\<bar> \<le> 9007199254740992 then of_int i else round_float L i)"

fun as_float :: "pylib \<Rightarrow> cell \<Rightarrow> cell" where
  "as_float L (CNum (NInt i)) = CNum (NFloat (float_of_int L i))"
| "as_float L (CBool b) = CNum (NFloat (if b then 1 else 0))"
| "as_float L v = v"

fun as_int :: "cell \<Rightarrow> cell" where
  "as_int (CBool b) = CNum (NInt (if b then 1 else 0))"
| "as_int v = v"

text \<open>
  A \<open>datetime64\<close> column is not read value by value: it is viewed as its counts of
  nanoseconds, a missing timestamp as the least \<open>int64\<close>.
\<close>

fun nanoseconds :: "cell \<Rightarrow> cell" where
  "nanoseconds (CTime t) = CNum (NInt \<lfloor>t * 1000000000\<rfloor>)"
| "nanoseconds v = CNum (NInt (- 9223372036854775808))"

definition to_numeric :: "pylib \<Rightarrow> cell list \<Rightarrow> cell list" where
  "to_numeric L vs =
     (if dtype_of vs = Ddatetime64 then map nanoseconds vs
      else
        let rs = map (read_numeric L) vs
        in if list_ex seen_float rs \<or> (list_ex seen_sint rs \<and> list_ex seen_uint rs)
           then map (as_float L) rs
           else if list_ex is_int rs then map as_int rs
           else rs)"

subsection \<open>\<open>.astype('Int64')\<close>\<close>

text \<open>
  The cast of what \<open>to_numeric\<close> gives: missing stays missing, a boolean becomes 0 or 1,
  and a number is cast only when the cast loses nothing. pandas raises \<open>TypeError\<close> for a
  float that is no integer or lies outside \<open>int64\<close>, and for an integer outside \<open>int64\<close>.
  Strings and timestamps do not reach the cast, since \<open>to_numeric\<close> leaves none.
\<close>

definition int64_float :: "rat \<Rightarrow> bool" where
  "int64_float x =
     (of_int \<lfloor>x\<rfloor> = x \<and> - 9223372036854775808 \<le> x \<and> x < 9223372036854775808)"

fun cast_Int64 :: "cell \<Rightarrow> exn + cell" where
  "cast_Int64 CNull = Inr CNull"
| "cast_Int64 (CNum (NInt i)) =
     (if in_int64 i then Inr (CNum (NInt i))
      else Inl (TypeError ''cannot safely cast non-equivalent uint64 to int64''))"
| "cast_Int64 (CNum (NFloat x)) =
     (if int64_float x then Inr (CNum (NInt \<lfloor>x\<rfloor>))
      else Inl (TypeError ''cannot safely cast non-equivalent float64 to int64''))"
| "cast_Int64 (CBool b) = Inr (CNum (NInt (if b then 1 else 0)))"
| "cast_Int64 (CStr s) = Inl (TypeError ''cannot safely cast non-equivalent object to int64'')"
| "cast_Int64 (CTime t) = Inl (TypeError ''cannot safely cast non-equivalent datetime64 to int64'')"

fun map_exn :: "('a \<Rightarrow> exn + 'b) \<Rightarrow> 'a list \<Rightarrow> exn + 'b list" where
  "map_exn f [] = Inr []"
| "map_exn f (x # xs) =
     (case f x of
        Inl e \<Rightarrow> Inl e
      | Inr y \<Rightarrow> (case map_exn f xs of Inl e \<Rightarrow> Inl e | Inr ys \<Rightarrow> Inr (y # ys)))"

definition astype_Int64 :: "cell list \<Rightarrow> exn + cell list" where
  "astype_Int64 vs = map_exn cast_Int64 vs"

text \<open>\<open>pd.to_numeric(col, errors='coerce').astype('Int64')\<close>.\<close>

definition to_nullable_int :: "pylib \<Rightarrow> cell list \<Rightarrow> exn + cell list" where
  "to_nullable_int L vs = astype_Int64 (to_numeric L vs)"

subsection \<open>\<open>pd.to_datetime(col, unit='s', errors='coerce')\<close>\<close>

text \<open>
  A number of seconds since the epoch becomes that timestamp when it fits the nanosecond
  range of a pandas timestamp, and missing when it does not. A timestamp is written as
  its seconds since the epoch; whole seconds are kept as they are, a fraction is rounded
  to whole nanoseconds by the library.
\<close>

definition epoch_seconds :: "pylib \<Rightarrow> rat \<Rightarrow> cell" where
  "epoch_seconds L x =
     (if - 9223372036854775807 \<le> x * 1000000000 \<and> x * 1000000000 \<le> 9223372036854775807
      then CTime (if of_int \<lfloor>x\<rfloor> = x then x else round_ns L x)
      else CNull)"

text \<open>
  Value by value: a string that reads as no number of seconds, a boolean and a timestamp
  among other values become missing instead of raising.
\<close>

fun epoch_cell :: "pylib \<Rightarrow> cell \<Rightarrow> cell" where
  "epoch_cell L CNull = CNull"
| "epoch_cell L (CStr s) = (case parse_epoch L s of None \<Rightarrow> CNull | Some x \<Rightarrow> epoch_seconds L x)"
| "epoch_cell L (CNum (NInt i)) = epoch_seconds L (of_int i)"
| "epoch_cell L (CNum (NFloat x)) = epoch_seconds L x"
| "epoch_cell L (CBool b) = CNull"
| "epoch_cell L (CTime t) = CNull"

text \<open>
  A \<open>float64\<close> column takes another path, on which \<open>errors='coerce'\<close> does not help: the
  integer part of every float is first stored in an \<open>int64\<close>, and a float whose integer
  part does not fit makes the call raise \<open>OverflowError\<close>.
\<close>

fun overflows :: "cell \<Rightarrow> bool" where
  "overflows (CNum (NFloat x)) = (9223372036854775808 \<le> x \<or> x \<le> - 9223372036854775809)"
| "overflows v = False"

text \<open>
  A \<open>uint64\<close> column is first cast as it lies in memory, so that an integer too large for
  \<open>int64\<close> wraps around to a negative one. When every second count got this way fits
  the range of a timestamp, these are the timestamps; otherwise the column is read
  again, value by value.
\<close>

fun wrap_int64 :: "cell \<Rightarrow> cell" where
  "wrap_int64 (CNum (NInt i)) =
     CNum (NInt (if 9223372036854775808 \<le> i then i - 18446744073709551616 else i))"
| "wrap_int64 v = v"

fun in_timestamp_range :: "cell \<Rightarrow> bool" where
  "in_timestamp_range (CNum (NInt i)) =
     (- 9223372036854775807 \<le> i * 1000000000 \<and> i * 1000000000 \<le> 9223372036854775807)"
| "in_timestamp_range v = False"

text \<open>A \<open>datetime64\<close> column is returned as it is.\<close>

definition to_datetime_s :: "pylib \<Rightarrow> cell list \<Rightarrow> exn + cell list" where
  "to_datetime_s L vs =
     (case dtype_of vs of
        Ddatetime64 \<Rightarrow> Inr vs
      | Dfloat64 \<Rightarrow>
          (if list_ex overflows (map (as_float L) vs)
           then Inl (OverflowError ''Python int too large to convert to C long'')
           else Inr (map (epoch_cell L) (map (as_float L) vs)))
      | Duint64 \<Rightarrow>
          (if list_all in_timestamp_range (map wrap_int64 vs)
           then Inr (map (epoch_cell L) (map wrap_int64 vs))
           else Inr (map (epoch_cell L) vs))
      | Dbool \<Rightarrow> Inr (map (epoch_cell L) vs)
      | Dint64 \<Rightarrow> Inr (map (epoch_cell L) vs)
      | Dobject \<Rightarrow> Inr (map (epoch_cell L) vs))"

subsection \<open>\<open>.astype(str).str.lower().map(bool_map)\<close>\<close>

text \<open>\<open>.astype(str)\<close> and \<open>.str.lower()\<close>. Only the letters A to Z have a lower case here.\<close>

fun astype_str :: "pylib \<Rightarrow> cell \<Rightarrow> string" where
  "astype_str L CNull = ''nan''"
| "astype_str L (CStr s) = s"
| "astype_str L (CNum x) = str_num L x"
| "astype_str L (CBool b) = (if b then ''True'' else ''False'')"
| "astype_str L (CTime t) = str_time L t"

definition lower_char :: "char \<Rightarrow> char" where
  "lower_char c =
     (if 65 \<le> (of_char c :: nat) \<and> (of_char c :: nat) \<le> 90
      then char_of ((of_char c :: nat) + 32) else c)"

definition lower :: "string \<Rightarrow> string" where
  "lower s = map lower_char s"

text \<open>\<open>.map(bool_map)\<close>: a key of the dictionary gives its value, anything else is missing.\<close>

definition bool_map :: "(string \<times> bool) list" where
  "bool_map = [(''true'', True), (''false'', False)]"

definition map_bool_map :: "string \<Rightarrow> cell" where
  "map_bool_map s = (case map_of bool_map s of None \<Rightarrow> CNull | Some b \<Rightarrow> CBool b)"

definition coerce_bool :: "pylib \<Rightarrow> cell \<Rightarrow> cell" where
  "coerce_bool L v = map_bool_map (lower (astype_str L v))"

subsection \<open>Column access\<close>

text \<open>
  \<open>df[c]\<close> raises \<open>KeyError\<close> for a column the frame does not have. \<open>df[c] = values\<close>
  replaces the column where it stands, or appends it as the last one.
\<close>

definition get_col :: "frame \<Rightarrow> string \<Rightarrow> exn + cell list" where
  "get_col df c = (case map_of (cols df) c of None \<Rightarrow> Inl (KeyError c) | Some vs \<Rightarrow> Inr vs)"

definition set_col :: "frame \<Rightarrow> string \<Rightarrow> cell list \<Rightarrow> frame" where
  "set_col df c vs = df\<lparr>cols := AList.update c vs (cols df)\<rparr>"

text \<open>\<open>df[c] = f(df[c])\<close> for a conversion that cannot raise, and for one that can.\<close>

definition apply_col :: "(cell list \<Rightarrow> cell list) \<Rightarrow> string \<Rightarrow> frame \<Rightarrow> exn + frame" where
  "apply_col f c df =
     (case get_col df c of Inl e \<Rightarrow> Inl e | Inr vs \<Rightarrow> Inr (set_col df c (f vs)))"

definition apply_col_exn :: "(cell list \<Rightarrow> exn + cell list) \<Rightarrow> string \<Rightarrow> frame \<Rightarrow> exn + frame" where
  "apply_col_exn f c df =
     (case get_col df c of
        Inl e \<Rightarrow> Inl e
      | Inr vs \<Rightarrow> (case f vs of Inl e \<Rightarrow> Inl e | Inr vs' \<Rightarrow> Inr (set_col df c vs')))"

text \<open>\<open>df[names]\<close>: a new frame of the named columns, in the order of the names.\<close>

definition select_cols :: "string list \<Rightarrow> frame \<Rightarrow> exn + frame" where
  "select_cols names df =
     (case map_exn (get_col df) names of
        Inl e \<Rightarrow> Inl e
      | Inr css \<Rightarrow> Inr \<lparr>nrows = nrows df, cols = zip names css\<rparr>)"

subsection \<open>\<open>transform_chunk\<close>\<close>

definition numeric_cols :: "string list" where
  "numeric_cols = [''longitude'', ''latitude'', ''baro_altitude'', ''velocity'',
                   ''true_track'', ''vertical_rate'', ''geo_altitude'']"

definition final_columns :: "string list" where
  "final_columns =
     [''load_timestamp'', ''file_source'', ''icao24'', ''callsign'', ''origin_country'',
      ''time_position'', ''last_contact'',
      ''longitude'', ''latitude'', ''baro_altitude'',
      ''on_ground'',
      ''velocity'', ''true_track'', ''vertical_rate'',
      ''sensors'', ''geo_altitude'', ''squawk'',
      ''spi'', ''position_source'']"

text \<open>The first loop: \<open>for col in numeric_cols: chunk_df[col] = pd.to_numeric(...)\<close>.\<close>

fun coerce_numeric_cols :: "pylib \<Rightarrow> string list \<Rightarrow> frame \<Rightarrow> exn + frame" where
  "coerce_numeric_cols L [] df = Inr df"
| "coerce_numeric_cols L (c # cs) df =
     (case apply_col (to_numeric L) c df of
        Inl e \<Rightarrow> Inl e
      | Inr df' \<Rightarrow> coerce_numeric_cols L cs df')"

text \<open>The last loop: a column of \<open>final_columns\<close> that the frame lacks is added, all missing.\<close>

fun add_missing_cols :: "string list \<Rightarrow> frame \<Rightarrow> frame" where
  "add_missing_cols [] df = df"
| "add_missing_cols (c # cs) df =
     add_missing_cols cs
       (if c \<in> set (map fst (cols df)) then df
        else set_col df c (replicate (nrows df) CNull))"

text \<open>
  \<open>transform_chunk\<close> changes the frame it is given and returns a selection of it. The
  result here is the pair of the argument as the function leaves it and the frame it
  returns.
\<close>

definition transform_chunk :: "pylib \<Rightarrow> frame \<Rightarrow> exn + frame \<times> frame" where
  "transform_chunk L chunk_df =
     (case coerce_numeric_cols L numeric_cols chunk_df of Inl e \<Rightarrow> Inl e | Inr df1 \<Rightarrow>
     (case apply_col_exn (to_nullable_int L) ''position_source'' df1 of Inl e \<Rightarrow> Inl e | Inr df2 \<Rightarrow>
     (case apply_col_exn (to_datetime_s L) ''time_position'' df2 of Inl e \<Rightarrow> Inl e | Inr df3 \<Rightarrow>
     (case apply_col_exn (to_datetime_s L) ''last_contact'' df3 of Inl e \<Rightarrow> Inl e | Inr df4 \<Rightarrow>
     (case apply_col (map (coerce_bool L)) ''on_ground'' df4 of Inl e \<Rightarrow> Inl e | Inr df5 \<Rightarrow>
     (case apply_col (map (coerce_bool L)) ''spi'' df5 of Inl e \<Rightarrow> Inl e | Inr df6 \<Rightarrow>
     (case select_cols final_columns (add_missing_cols final_columns df6) of
        Inl e \<Rightarrow> Inl e
      | Inr out \<Rightarrow> Inr (add_missing_cols final_columns df6, out))))))))"

section \<open>Processing one raw file\<close>

text \<open>
  The rows of a frame, as \<open>to_sql\<close> and \<open>to_csv\<close> write them: one record per row, with
  and without the column names.
\<close>

definition frame_rows :: "frame \<Rightarrow> cell list list" where
  "frame_rows df = map (\<lambda>i. map (\<lambda>c. snd c ! i) (cols df)) [0..<nrows df]"

definition frame_records :: "frame \<Rightarrow> (string \<times> cell) list list" where
  "frame_records df = map (\<lambda>i. map (\<lambda>c. (fst c, snd c ! i)) (cols df)) [0..<nrows df]"

text \<open>
  \<open>chunk.to_sql('raw_flight_states', engine, if_exists='append', index=False)\<close>: the rows
  are appended, or the call raises and appends nothing.
\<close>

definition to_sql :: "world \<Rightarrow> frame \<Rightarrow> world \<times> exn option" where
  "to_sql w df =
     (case staging_faults w of
        [] \<Rightarrow> (w\<lparr>raw_flight_states := raw_flight_states w @ frame_records df\<rparr>, None)
      | None # fs \<Rightarrow>
          (w\<lparr>staging_faults := fs,
             raw_flight_states := raw_flight_states w @ frame_records df\<rparr>, None)
      | Some m # fs \<Rightarrow> (w\<lparr>staging_faults := fs\<rparr>, Some (DatabaseError m)))"

text \<open>
  \<open>df.to_csv(path, mode='a', index=False, header=h)\<close> in the cleaned-data directory: the
  records go after what the file holds, and the file is created when it is not there.
  Writing to this directory and deleting from it are taken to succeed.
\<close>

definition csv_lines :: "bool \<Rightarrow> frame \<Rightarrow> line list" where
  "csv_lines header df =
     (if header then [Header (map fst (cols df))] else []) @ map Row (frame_rows df)"

definition to_csv :: "world \<Rightarrow> string \<Rightarrow> frame \<Rightarrow> bool \<Rightarrow> world" where
  "to_csv w name df header =
     w\<lparr>clean_data_dir :=
         AList.update name
           ((case map_of (clean_data_dir w) name of None \<Rightarrow> [] | Some ls \<Rightarrow> ls)
              @ csv_lines header df)
           (clean_data_dir w)\<rparr>"

text \<open>The name of the cleaned file: \<open>f"clean_{file_name}"\<close>.\<close>

definition clean_name :: "string \<Rightarrow> string" where
  "clean_name file_name = ''clean_'' @ file_name"

text \<open>\<open>if os.path.exists(output_path): os.remove(output_path)\<close>.\<close>

definition remove_if_exists :: "world \<Rightarrow> string \<Rightarrow> world" where
  "remove_if_exists w name =
     (if name \<in> set (map fst (clean_data_dir w))
      then w\<lparr>clean_data_dir := AList.delete name (clean_data_dir w)\<rparr>
      else w)"

text \<open>
  \<open>pd.read_csv(path, chunksize=n)\<close>. A raw file is held as the table of its values,
  each in its narrowest form, so that every chunk has the dtypes pandas infers for it.
  The reader hands out the rows \<open>n\<close> at a time; a file of a header and no rows gives one
  empty chunk, and a file without a header line, which has no columns, makes
  \<open>pd.read_csv\<close> raise \<open>EmptyDataError\<close>.
\<close>

definition take_rows :: "nat \<Rightarrow> frame \<Rightarrow> frame" where
  "take_rows n df =
     \<lparr>nrows = min n (nrows df), cols = map (\<lambda>c. (fst c, take n (snd c))) (cols df)\<rparr>"

definition drop_rows :: "nat \<Rightarrow> frame \<Rightarrow> frame" where
  "drop_rows n df =
     \<lparr>nrows = nrows df - n, cols = map (\<lambda>c. (fst c, drop n (snd c))) (cols df)\<rparr>"

function read_chunks :: "nat \<Rightarrow> frame \<Rightarrow> frame list" where
  "read_chunks n df =
     (if n = 0 \<or> nrows df \<le> n then [df]
      else take_rows n df # read_chunks n (drop_rows n df))"
  by pat_completeness auto
termination
  by (relation "measure (\<lambda>(n, df). nrows df)") (auto simp: drop_rows_def)

declare read_chunks.simps [simp del]

definition read_csv :: "world \<Rightarrow> string \<Rightarrow> nat \<Rightarrow> exn + frame list" where
  "read_csv w file_name chunksize =
     (case raw_data_dir w of
        None \<Rightarrow> Inl (FileNotFoundError file_name)
      | Some d \<Rightarrow>
          (case map_of d file_name of
             None \<Rightarrow> Inl (FileNotFoundError file_name)
           | Some df \<Rightarrow>
               if cols df = [] then Inl (EmptyDataError ''No columns to parse from file'')
               else Inr (read_chunks chunksize df)))"

text \<open>\<open>chunk.empty\<close>: no rows or no columns.\<close>

definition empty_frame :: "frame \<Rightarrow> bool" where
  "empty_frame df = (nrows df = 0 \<or> cols df = [])"

text \<open>
  The body of \<open>for chunk in reader\<close>, with the variables the loop carries:
  \<open>total_rows\<close> and \<open>is_first_chunk\<close>.
\<close>

fun process_chunks :: "pylib \<Rightarrow> string \<Rightarrow> frame list \<Rightarrow> world \<Rightarrow> nat \<Rightarrow> bool
    \<Rightarrow> world \<times> (exn + nat)" where
  "process_chunks L file_name [] w total_rows is_first_chunk = (w, Inr total_rows)"
| "process_chunks L file_name (chunk # rest) w total_rows is_first_chunk =
     (if empty_frame chunk then process_chunks L file_name rest w total_rows is_first_chunk
      else
        let stamped =
              set_col
                (set_col chunk ''load_timestamp''
                   (replicate (nrows chunk) (CTime (clock w))))
                ''file_source'' (replicate (nrows chunk) (CStr file_name))
        in case to_sql w stamped of
             (w1, Some e) \<Rightarrow> (w1, Inl e)
           | (w1, None) \<Rightarrow>
               (case transform_chunk L stamped of
                  Inl e \<Rightarrow> (w1, Inl e)
                | Inr (chunk', clean_chunk) \<Rightarrow>
                    process_chunks L file_name rest
                      (to_csv w1 (clean_name file_name) clean_chunk is_first_chunk)
                      (total_rows + nrows chunk') False))"

text \<open>
  \<open>process_single_file\<close>, with the chunk size as a parameter; the source fixes it at
  100000.
\<close>

definition process_file_chunked :: "pylib \<Rightarrow> nat \<Rightarrow> string \<Rightarrow> world \<Rightarrow> world \<times> (exn + nat)" where
  "process_file_chunked L chunk_size file_name w =
     (let w0 = remove_if_exists w (clean_name file_name)
      in case read_csv w0 file_name chunk_size of
           Inl e \<Rightarrow> (w0, Inl e)
         | Inr chunks \<Rightarrow> process_chunks L file_name chunks w0 0 True)"

definition process_single_file :: "pylib \<Rightarrow> string \<Rightarrow> world \<Rightarrow> world \<times> (exn + nat)" where
  "process_single_file L file_name w = process_file_chunked L 100000 file_name w"

section \<open>The batch loop of the loader\<close>

text \<open>One turn of \<open>for fname in files_to_run\<close>, with its \<open>try\<close> and \<open>except\<close>.\<close>

definition run_one_file :: "pylib \<Rightarrow> world \<Rightarrow> string \<Rightarrow> world" where
  "run_one_file L w fname =
     (case process_single_file L fname (update_file_log w fname ''PROCESSING'' None None) of
        (w2, Inr rows) \<Rightarrow> update_file_log w2 fname ''CLEAN_EXPORTED'' (Some rows) None
      | (w2, Inl e) \<Rightarrow> update_file_log w2 fname ''FAILED'' None (Some (str_exn e)))"

fun run_files :: "pylib \<Rightarrow> world \<Rightarrow> string list \<Rightarrow> world" where
  "run_files L w [] = w"
| "run_files L w (fname # rest) = run_files L (run_one_file L w fname) rest"

text \<open>The work queue: \<open>SELECT file_name FROM file_log WHERE status = 'NEW'\<close>.\<close>

definition select_new_files :: "world \<Rightarrow> world \<times> (exn + string list)" where
  "select_new_files w =
     (case db_execute w of
        (Some e, w') \<Rightarrow> (w', Inl (DatabaseError e))
      | (None, w') \<Rightarrow>
          (w', Inr (map fl_file_name (filter (\<lambda>r. fl_status r = ''NEW'') (file_log w')))))"

text \<open>
  \<open>main\<close> of the loader. A connection that cannot be opened, a missing directory, an
  empty listing or a failing selection ends the run.
\<close>

definition load_main :: "pylib \<Rightarrow> world \<Rightarrow> world" where
  "load_main L w =
     (if control_conn_error w \<noteq> None \<or> staging_engine_error w \<noteq> None then w
      else case list_csv_files w of
             Inl e \<Rightarrow> w
           | Inr csv_files \<Rightarrow>
               (if csv_files = [] then w
                else (case select_new_files (discover_and_register w) of
                        (w3, Inl e) \<Rightarrow> w3
                      | (w3, Inr files_to_run) \<Rightarrow> run_files L w3 files_to_run)))"

section \<open>The extractor\<close>

subsection \<open>Python values decoded from JSON\<close>

text \<open>Truthiness, as \<open>not x\<close> and \<open>if x\<close> read it.\<close>

fun truthy :: "json \<Rightarrow> bool" where
  "truthy JNull = False"
| "truthy (JBool b) = b"
| "truthy (JNum x) = (x \<noteq> 0)"
| "truthy (JStr s) = (s \<noteq> [])"
| "truthy (JArr xs) = (xs \<noteq> [])"
| "truthy (JObj kv) = (kv \<noteq> [])"

text \<open>\<open>key in x\<close> for a string key: a key of a dict, an element of a list, a part of a string.\<close>

definition is_substring :: "string \<Rightarrow> string \<Rightarrow> bool" where
  "is_substring p s = list_ex (\<lambda>i. take (length p) (drop i s) = p) [0..<Suc (length s)]"

fun contains_key :: "json \<Rightarrow> string \<Rightarrow> exn + bool" where
  "contains_key (JObj kv) k = Inr (k \<in> set (map fst kv))"
| "contains_key (JArr xs) k = Inr (JStr k \<in> set xs)"
| "contains_key (JStr s) k = Inr (is_substring k s)"
| "contains_key JNull k = Inl (TypeError ''argument of type NoneType is not iterable'')"
| "contains_key (JBool b) k = Inl (TypeError ''argument of type bool is not iterable'')"
| "contains_key (JNum x) k = Inl (TypeError ''argument of type number is not iterable'')"

text \<open>\<open>x[key]\<close> for a string key, and \<open>x.get(key, default)\<close>.\<close>

fun subscript :: "json \<Rightarrow> string \<Rightarrow> exn + json" where
  "subscript (JObj kv) k = (case map_of kv k of None \<Rightarrow> Inl (KeyError k) | Some v \<Rightarrow> Inr v)"
| "subscript (JArr xs) k = Inl (TypeError ''list indices must be integers or slices, not str'')"
| "subscript (JStr s) k = Inl (TypeError ''string indices must be integers, not str'')"
| "subscript JNull k = Inl (TypeError ''NoneType object is not subscriptable'')"
| "subscript (JBool b) k = Inl (TypeError ''bool object is not subscriptable'')"
| "subscript (JNum x) k = Inl (TypeError ''number object is not subscriptable'')"

fun get_default :: "json \<Rightarrow> string \<Rightarrow> json \<Rightarrow> exn + json" where
  "get_default (JObj kv) k d = Inr (case map_of kv k of None \<Rightarrow> d | Some v \<Rightarrow> v)"
| "get_default (JArr xs) k d = Inl (AttributeError ''list object has no attribute get'')"
| "get_default (JStr s) k d = Inl (AttributeError ''str object has no attribute get'')"
| "get_default JNull k d = Inl (AttributeError ''NoneType object has no attribute get'')"
| "get_default (JBool b) k d = Inl (AttributeError ''bool object has no attribute get'')"
| "get_default (JNum x) k d = Inl (AttributeError ''number object has no attribute get'')"

text \<open>\<open>len(x)\<close>.\<close>

fun py_len :: "json \<Rightarrow> exn + nat" where
  "py_len (JArr xs) = Inr (length xs)"
| "py_len (JStr s) = Inr (length s)"
| "py_len (JObj kv) = Inr (length kv)"
| "py_len JNull = Inl (TypeError ''object of type NoneType has no len()'')"
| "py_len (JBool b) = Inl (TypeError ''object of type bool has no len()'')"
| "py_len (JNum x) = Inl (TypeError ''object of type number has no len()'')"

text \<open>
  What iterating over a value yields: the elements of a list, the characters of a string,
  the keys of a dict. \<open>csv.writer\<close> iterates over the rows it is given and over each row;
  a row that cannot be iterated over makes it raise.
\<close>

fun iterate :: "json \<Rightarrow> exn + json list" where
  "iterate (JArr xs) = Inr xs"
| "iterate (JStr s) = Inr (map (\<lambda>c. JStr [c]) s)"
| "iterate (JObj kv) = Inr (map (\<lambda>p. JStr (fst p)) kv)"
| "iterate JNull = Inl (CsvError ''iterable expected, not NoneType'')"
| "iterate (JBool b) = Inl (CsvError ''iterable expected, not bool'')"
| "iterate (JNum x) = Inl (CsvError ''iterable expected, not number'')"

text \<open>A row of the database as a dict: \<open>config[key]\<close>.\<close>

definition dict_get :: "(string \<times> string) list \<Rightarrow> string \<Rightarrow> exn + string" where
  "dict_get d k = (case map_of d k of None \<Rightarrow> Inl (KeyError k) | Some v \<Rightarrow> Inr v)"

subsection \<open>The API client\<close>

text \<open>
  \<open>response.raise_for_status()\<close> raises for the statuses 400 to 599 and for no other. Of
  the message of the error only its kind is kept.
\<close>

definition http_error_message :: "nat \<Rightarrow> string" where
  "http_error_message code = (if code < 500 then ''Client Error'' else ''Server Error'')"

definition raise_for_status :: "http_response \<Rightarrow> exn + unit" where
  "raise_for_status response =
     (if 400 \<le> status_code response \<and> status_code response < 600
      then Inl (HTTPError (status_code response) (http_error_message (status_code response)))
      else Inr ())"

text \<open>\<open>response.json()\<close>.\<close>

definition response_json :: "http_response \<Rightarrow> exn + json" where
  "response_json response =
     (case body response of
        None \<Rightarrow> Inl (JSONDecodeError ''Expecting value'')
      | Some v \<Rightarrow> Inr v)"

text \<open>
  What \<open>get_access_token\<close> prints to the error stream: the hint about the credentials for
  status 401, the exception for any other HTTP error.
\<close>

datatype stderr_line = TokenHint401 | TokenHttpError exn

text \<open>
  \<open>get_access_token\<close>. Its \<open>except\<close> clause catches \<open>requests.exceptions.HTTPError\<close> only,
  prints one of the two lines and raises the exception it caught. The result is the pair
  of what was printed to the error stream and what the call returns or raises.
\<close>

definition get_access_token :: "world \<Rightarrow> string \<Rightarrow> string \<Rightarrow> string
    \<Rightarrow> stderr_line list \<times> (exn + json)" where
  "get_access_token w token_url client_id client_secret =
     (case token_reply w of
        Inl m \<Rightarrow> ([], Inl (RequestException m))
      | Inr response \<Rightarrow>
          (case raise_for_status response of
             Inl e \<Rightarrow>
               (if status_code response = 401 then [TokenHint401] else [TokenHttpError e], Inl e)
           | Inr u \<Rightarrow>
               (case response_json response of
                  Inl e \<Rightarrow> ([], Inl e)
                | Inr token_data \<Rightarrow> ([], subscript token_data ''access_token''))))"

text \<open>\<open>call_opensky_api\<close>: six entries of the job's row, then the request.\<close>

fun first_missing :: "(string \<times> string) list \<Rightarrow> string list \<Rightarrow> exn option" where
  "first_missing d [] = None"
| "first_missing d (k # ks) =
     (case dict_get d k of Inl e \<Rightarrow> Some e | Inr v \<Rightarrow> first_missing d ks)"

definition call_opensky_api :: "world \<Rightarrow> (string \<times> string) list \<Rightarrow> json \<Rightarrow> exn + json" where
  "call_opensky_api w config access_token =
     (case first_missing config
             [''base_url'', ''endpoint'', ''lamin'', ''lomin'', ''lamax'', ''lomax''] of
        Some e \<Rightarrow> Inl e
      | None \<Rightarrow>
          (case api_reply w of
             Inl m \<Rightarrow> Inl (RequestException m)
           | Inr response \<Rightarrow>
               (case raise_for_status response of
                  Inl e \<Rightarrow> Inl e
                | Inr u \<Rightarrow> response_json response)))"

subsection \<open>The job ledger\<close>

text \<open>
  \<open>get_job_config\<close> and \<open>get_system_config\<close>: one \<open>SELECT\<close> each. The row of the job is
  returned as a dict of its columns, the value of the key as it is. A database error and
  a missing row are printed and raised again.
\<close>

definition get_job_config :: "world \<Rightarrow> string \<Rightarrow> world \<times> (exn + (string \<times> string) list)" where
  "get_job_config w job_name =
     (case db_execute w of
        (Some m, w') \<Rightarrow> (w', Inl (DatabaseError m))
      | (None, w') \<Rightarrow>
          (case map_of (job_definitions w') job_name of
             None \<Rightarrow> (w', Inl (Exception ''job_name not found in job_definitions''))
           | Some config \<Rightarrow> (w', Inr config)))"

definition get_system_config :: "world \<Rightarrow> string \<Rightarrow> world \<times> (exn + string)" where
  "get_system_config w config_key =
     (case db_execute w of
        (Some m, w') \<Rightarrow> (w', Inl (DatabaseError m))
      | (None, w') \<Rightarrow>
          (case map_of (configuration w') config_key of
             None \<Rightarrow> (w', Inl (Exception ''config_key not found in configuration''))
           | Some v \<Rightarrow> (w', Inr v)))"

text \<open>
  Modelled from the spec: what table \<open>job_logs\<close>, whose schema is not among the sources,
  fills in for an \<open>INSERT\<close> that gives the job name, the start time and the status. The
  spec has \<open>log_id\<close> generated, monotonically and never reused; it is taken as the next
  value of a sequence that counts from 1. The end time and the message are null.
\<close>

definition next_log_id :: "world \<Rightarrow> int" where
  "next_log_id w = int (Suc (job_logs_seq w))"

definition new_job_log :: "world \<Rightarrow> string \<Rightarrow> string \<Rightarrow> job_log" where
  "new_job_log w job_name st =
     \<lparr>jl_log_id = next_log_id w, jl_job_name = job_name, jl_start_time = clock w,
      jl_end_time = None, jl_status = st, jl_message = None\<rparr>"

text \<open>
  \<open>log_job_start\<close>: one \<open>INSERT ... RETURNING log_id\<close> with status \<open>STARTED\<close>. A failing
  insert is rolled back and raised again.
\<close>

definition log_job_start :: "world \<Rightarrow> string \<Rightarrow> world \<times> (exn + int)" where
  "log_job_start w job_name =
     (case db_execute w of
        (Some m, w') \<Rightarrow> (w', Inl (DatabaseError m))
      | (None, w') \<Rightarrow>
          (w'\<lparr>job_logs_seq := Suc (job_logs_seq w'),
              job_logs := job_logs w' @ [new_job_log w' job_name ''STARTED'']\<rparr>,
           Inr (next_log_id w')))"

text \<open>
  \<open>log_job_end\<close>: one \<open>UPDATE\<close> of the rows with the given id. The message is cut to 500
  characters, and an empty or absent one is stored as null. A failing update is rolled
  back and printed, and nothing is raised.
\<close>

definition final_message :: "string option \<Rightarrow> string option" where
  "final_message message =
     (case message of
        None \<Rightarrow> None
      | Some m \<Rightarrow> if m = [] then None else Some (take 500 m))"

definition set_job_log :: "int \<Rightarrow> string \<Rightarrow> string option \<Rightarrow> rat \<Rightarrow> job_log \<Rightarrow> job_log" where
  "set_job_log log_id st message now r =
     (if jl_log_id r = log_id
      then r\<lparr>jl_end_time := Some now, jl_status := st, jl_message := final_message message\<rparr>
      else r)"

definition log_job_end :: "world \<Rightarrow> int \<Rightarrow> string \<Rightarrow> string option \<Rightarrow> world" where
  "log_job_end w log_id st message =
     (case db_execute w of
        (Some m, w') \<Rightarrow> w'
      | (None, w') \<Rightarrow>
          w'\<lparr>job_logs := map (set_job_log log_id st message (clock w')) (job_logs w')\<rparr>)"

subsection \<open>The raw writer\<close>

definition csv_header :: "string list" where
  "csv_header =
     [''icao24'', ''callsign'', ''origin_country'', ''time_position'', ''last_contact'',
      ''longitude'', ''latitude'', ''baro_altitude'', ''on_ground'', ''velocity'',
      ''true_track'', ''vertical_rate'', ''sensors'', ''geo_altitude'', ''squawk'',
      ''spi'', ''position_source'']"

text \<open>
  \<open>os.path.join\<close> of a directory and a file name that does not start with a slash, as
  POSIX paths.
\<close>

definition path_join :: "string \<Rightarrow> string \<Rightarrow> string" where
  "path_join d f = (if d = [] then f else if last d = CHR ''/'' then d @ f else d @ ''/'' @ f)"

text \<open>One call that touches the filesystem: \<open>os.makedirs\<close>, or \<open>open\<close> for writing.\<close>

definition fs_execute :: "world \<Rightarrow> string option \<times> world" where
  "fs_execute w =
     (case fs_faults w of
        [] \<Rightarrow> (None, w)
      | f # fs \<Rightarrow> (f, w\<lparr>fs_faults := fs\<rparr>))"

text \<open>
  \<open>writer.writerows(states_array)\<close> after the header: the records written, and the
  exception of the first row that is not iterable, which ends the writing.
\<close>

fun write_rows :: "json list \<Rightarrow> json list list \<times> exn option" where
  "write_rows [] = ([], None)"
| "write_rows (row # rest) =
     (case iterate row of
        Inl e \<Rightarrow> ([], Some e)
      | Inr values \<Rightarrow> (case write_rows rest of (written, r) \<Rightarrow> (values # written, r)))"

text \<open>
  \<open>save_data_to_csv\<close>. A written file is the list of its records, the header record
  first. The two early returns and every raise of the source are branches here; the
  world comes back changed where the directory or the file was created before the raise.
\<close>

definition save_data_to_csv :: "pylib \<Rightarrow> world \<Rightarrow> json \<Rightarrow> string \<Rightarrow> string
    \<Rightarrow> world \<times> (exn + string option)" where
  "save_data_to_csv L w json_response output_dir job_name =
     (if \<not> truthy json_response then (w, Inr None)
      else case contains_key json_response ''states'' of
        Inl e \<Rightarrow> (w, Inl e)
      | Inr False \<Rightarrow> (w, Inr None)
      | Inr True \<Rightarrow>
     (case get_default json_response ''states'' (JArr []) of
        Inl e \<Rightarrow> (w, Inl e)
      | Inr states_array \<Rightarrow>
     (if \<not> truthy states_array then (w, Inr None)
      else
        let file_name = ''states_'' @ job_name @ ''_'' @ strftime L (clock w) @ ''.csv'';
            made = (if output_dir \<in> set (out_dirs w) then (None, w)
                    else case fs_execute w of
                           (Some m, w1) \<Rightarrow> (Some (OSError m), w1)
                         | (None, w1) \<Rightarrow> (None, w1\<lparr>out_dirs := output_dir # out_dirs w1\<rparr>))
        in case made of
             (Some e, w1) \<Rightarrow> (w1, Inl e)
           | (None, w1) \<Rightarrow>
        (case py_len states_array of
           Inl e \<Rightarrow> (w1, Inl e)
         | Inr n \<Rightarrow>
        (case fs_execute w1 of
           (Some m, w2) \<Rightarrow> (w2, Inl (OSError m))
         | (None, w2) \<Rightarrow>
        (case iterate states_array of
           Inl e \<Rightarrow>
             (w2\<lparr>out_files := AList.update (path_join output_dir file_name)
                                 [map JStr csv_header] (out_files w2)\<rparr>, Inl e)
         | Inr rows \<Rightarrow>
        (case write_rows rows of
           (written, r) \<Rightarrow>
             (w2\<lparr>out_files := AList.update (path_join output_dir file_name)
                                 (map JStr csv_header # written) (out_files w2)\<rparr>,
              case r of
                Some e \<Rightarrow> Inl e
              | None \<Rightarrow> Inr (Some (path_join output_dir file_name))))))))))"

subsection \<open>\<open>main\<close> of the extractor\<close>

text \<open>
  Steps 4 to 6 of the \<open>try\<close> block: the token, the API call, the file. They leave the
  database alone.
\<close>

definition fetch_and_save :: "pylib \<Rightarrow> world \<Rightarrow> (string \<times> string) list \<Rightarrow> string \<Rightarrow> string
    \<Rightarrow> world \<times> (exn + string option)" where
  "fetch_and_save L w job_config token_url job_name =
     (case dict_get job_config ''client_id'' of Inl e \<Rightarrow> (w, Inl e) | Inr client_id \<Rightarrow>
     (case dict_get job_config ''client_secret'' of Inl e \<Rightarrow> (w, Inl e) | Inr client_secret \<Rightarrow>
     (case snd (get_access_token w token_url client_id client_secret) of
        Inl e \<Rightarrow> (w, Inl e) | Inr access_token \<Rightarrow>
     (case call_opensky_api w job_config access_token of
        Inl e \<Rightarrow> (w, Inl e) | Inr api_response_json \<Rightarrow>
     (case dict_get job_config ''output_path'' of Inl e \<Rightarrow> (w, Inl e) | Inr output_path \<Rightarrow>
        save_data_to_csv L w api_response_json output_path job_name)))))"

text \<open>
  The \<open>except\<close> clause of \<open>main\<close>: the failure is logged when a log row was opened, that is
  when \<open>log_id\<close> is not \<open>-1\<close> any more.
\<close>

definition log_failure :: "world \<Rightarrow> int \<Rightarrow> exn \<Rightarrow> world" where
  "log_failure w log_id e =
     (if log_id \<noteq> - 1 then log_job_end w log_id ''FAILED'' (Some (str_exn e)) else w)"

text \<open>
  Step 7 on success: the job is \<open>COMPLETED\<close>, with the path in the message or the note
  that there was no new data. The messages are the source's, without their diacritics.
\<close>

definition log_success :: "world \<Rightarrow> int \<Rightarrow> string option \<Rightarrow> world" where
  "log_success w log_id csv_file_path =
     (case csv_file_path of
        None \<Rightarrow> log_job_end w log_id ''COMPLETED'' (Some ''Hoan thanh (Khong co du lieu moi).'')
      | Some p \<Rightarrow>
          if p = [] then
            log_job_end w log_id ''COMPLETED'' (Some ''Hoan thanh (Khong co du lieu moi).'')
          else log_job_end w log_id ''COMPLETED'' (Some (''Tai thanh cong: '' @ p)))"

text \<open>What \<open>main\<close> does once \<open>log_job_start\<close> has returned \<open>log_id\<close>.\<close>

definition run_logged_job :: "pylib \<Rightarrow> world \<Rightarrow> int \<Rightarrow> (string \<times> string) list \<Rightarrow> string
    \<Rightarrow> string \<Rightarrow> world" where
  "run_logged_job L w log_id job_config token_url job_name =
     (case fetch_and_save L w job_config token_url job_name of
        (w4, Inl e) \<Rightarrow> log_failure w4 log_id e
      | (w4, Inr csv_file_path) \<Rightarrow> log_success w4 log_id csv_file_path)"

definition extract_main :: "pylib \<Rightarrow> world \<Rightarrow> string \<Rightarrow> world" where
  "extract_main L w job_name =
     (if control_conn_error w \<noteq> None then w
      else case get_job_config w job_name of
        (w1, Inl e) \<Rightarrow> log_failure w1 (- 1) e
      | (w1, Inr job_config) \<Rightarrow>
     (case get_system_config w1 ''opensky_token_url'' of
        (w2, Inl e) \<Rightarrow> log_failure w2 (- 1) e
      | (w2, Inr token_url) \<Rightarrow>
     (case log_job_start w2 job_name of
        (w3, Inl e) \<Rightarrow> log_failure w3 (- 1) e
      | (w3, Inr log_id) \<Rightarrow> run_logged_job L w3 log_id job_config token_url job_name)))"

section \<open>Worlds and inputs of the examples\<close>

definition blank_world :: world where
  "blank_world =
     \<lparr>clock = 0, control_conn_error = None, staging_engine_error = None, db_faults = [],
      job_definitions = [], configuration = [], job_logs = [], job_logs_seq = 0,
      file_log = [], raw_flight_states = [], staging_faults = [], raw_data_dir = None,
      clean_data_dir = [], token_reply = Inl ''unreachable'',
      api_reply = Inl ''unreachable'', fs_faults = [], out_dirs = [],
      out_files = []\<rparr>"

definition ledger_world :: world where
  "ledger_world =
     blank_world\<lparr>clock := 50,
       file_log :=
         [\<lparr>fl_file_name = ''states_a.csv'', fl_status = ''FAILED'', fl_row_count = Some 7,
           fl_error_message = Some ''boom'', fl_last_updated = Some 9\<rparr>,
          \<lparr>fl_file_name = ''states_b.csv'', fl_status = ''NEW'', fl_row_count = None,
           fl_error_message = None, fl_last_updated = None\<rparr>],
       raw_data_dir :=
         Some [(''states_a.csv'', \<lparr>nrows = 0, cols = []\<rparr>), (''notes.txt'', \<lparr>nrows = 0, cols = []\<rparr>),
               (''states_c.csv'', \<lparr>nrows = 0, cols = []\<rparr>)]\<rparr>"

text \<open>
  A library for the examples: it reads the literals they use and no other string. How it
  rounds, and how it prints numbers, timestamps and the clock, plays no part in them.
\<close>

definition example_lib :: pylib where
  "example_lib =
     \<lparr>parse_numeric = map_of [(''12.3'', NFloat (123 / 10)), (''1700000000'', NInt 1700000000)],
      parse_epoch = map_of [(''1700000000'', 1700000000)],
      round_float = of_int,
      round_ns = (\<lambda>x. x),
      str_num = (\<lambda>x. ''0''),
      str_time = (\<lambda>t. ''1970-01-01 00:00:00''),
      strftime = (\<lambda>t. ''19700101_000000'')\<rparr>"

text \<open>
  A chunk of one row, with the values of the spec's example: \<open>on_ground\<close> is \<open>TRUE\<close>,
  \<open>longitude\<close> is \<open>12.3\<close>, \<open>time_position\<close> is \<open>1700000000\<close> and \<open>position_source\<close> is
  \<open>abc\<close>, all as strings.
\<close>

definition example_chunk :: frame where
  "example_chunk =
     \<lparr>nrows = 1,
      cols = [(''icao24'', [CStr ''abc123'']), (''callsign'', [CStr ''DLH1'']),
              (''origin_country'', [CStr ''Germany'']),
              (''time_position'', [CStr ''1700000000'']), (''last_contact'', [CNum (NInt 1700000001)]),
              (''longitude'', [CStr ''12.3'']), (''latitude'', [CNum (NFloat (97 / 2))]),
              (''baro_altitude'', [CStr ''high'']), (''on_ground'', [CStr ''TRUE'']),
              (''velocity'', [CNull]), (''true_track'', [CNum (NInt 90)]),
              (''vertical_rate'', [CNull]), (''sensors'', [CNull]),
              (''geo_altitude'', [CNull]), (''squawk'', [CStr ''7000'']),
              (''spi'', [CBool False]), (''position_source'', [CStr ''abc''])]\<rparr>"

text \<open>What \<open>transform_chunk\<close> makes of the example chunk: the chunk as left, and the result.\<close>

definition example_mutated :: frame where
  "example_mutated =
     \<lparr>nrows = 1,
      cols = [(''icao24'', [CStr ''abc123'']), (''callsign'', [CStr ''DLH1'']),
              (''origin_country'', [CStr ''Germany'']),
              (''time_position'', [CTime 1700000000]), (''last_contact'', [CTime 1700000001]),
              (''longitude'', [CNum (NFloat (123 / 10))]), (''latitude'', [CNum (NFloat (97 / 2))]),
              (''baro_altitude'', [CNull]), (''on_ground'', [CBool True]),
              (''velocity'', [CNull]), (''true_track'', [CNum (NInt 90)]),
              (''vertical_rate'', [CNull]), (''sensors'', [CNull]),
              (''geo_altitude'', [CNull]), (''squawk'', [CStr ''7000'']),
              (''spi'', [CBool False]), (''position_source'', [CNull]),
              (''load_timestamp'', [CNull]), (''file_source'', [CNull])]\<rparr>"

definition example_clean :: frame where
  "example_clean =
     \<lparr>nrows = 1,
      cols = [(''load_timestamp'', [CNull]), (''file_source'', [CNull]),
              (''icao24'', [CStr ''abc123'']), (''callsign'', [CStr ''DLH1'']),
              (''origin_country'', [CStr ''Germany'']),
              (''time_position'', [CTime 1700000000]), (''last_contact'', [CTime 1700000001]),
              (''longitude'', [CNum (NFloat (123 / 10))]), (''latitude'', [CNum (NFloat (97 / 2))]),
              (''baro_altitude'', [CNull]), (''on_ground'', [CBool True]),
              (''velocity'', [CNull]), (''true_track'', [CNum (NInt 90)]),
              (''vertical_rate'', [CNull]), (''sensors'', [CNull]),
              (''geo_altitude'', [CNull]), (''squawk'', [CStr ''7000'']),
              (''spi'', [CBool False]), (''position_source'', [CNull])]\<rparr>"

text \<open>A chunk of one row whose \<open>position_source\<close> is the float 1.5.\<close>

definition fractional_chunk :: frame where
  "fractional_chunk =
     \<lparr>nrows = 1,
      cols = [(''icao24'', [CStr ''abc123'']), (''callsign'', [CStr ''DLH1'']),
              (''origin_country'', [CStr ''Germany'']),
              (''time_position'', [CNum (NInt 1700000000)]),
              (''last_contact'', [CNum (NInt 1700000001)]),
              (''longitude'', [CNum (NFloat (123 / 10))]), (''latitude'', [CNum (NFloat (97 / 2))]),
              (''baro_altitude'', [CNum (NInt 1000)]), (''on_ground'', [CBool False]),
              (''velocity'', [CNull]), (''true_track'', [CNum (NInt 90)]),
              (''vertical_rate'', [CNull]), (''sensors'', [CNull]),
              (''geo_altitude'', [CNull]), (''squawk'', [CStr ''7000'']),
              (''spi'', [CBool False]), (''position_source'', [CNum (NFloat (3 / 2))])]\<rparr>"


text \<open>A raw file of three rows, and a raw file of a header and no rows.\<close>

definition three_row_file :: frame where
  "three_row_file =
     \<lparr>nrows = 3,
      cols = [(''icao24'', [CStr ''4b1805'', CStr ''3c6444'', CStr ''a0b1c2'']),
              (''callsign'', [CStr ''SWR12'', CStr ''DLH1'', CNull]),
              (''origin_country'', [CStr ''Switzerland'', CStr ''Germany'', CStr ''United States'']),
              (''time_position'', [CNum (NInt 1700000000), CNum (NInt 1700000001), CNull]),
              (''last_contact'', [CNum (NInt 1700000002), CNum (NInt 1700000002), CNum (NInt 1700000003)]),
              (''longitude'', [CNum (NFloat (123 / 10)), CNum (NFloat (17 / 2)), CNull]),
              (''latitude'', [CNum (NFloat (97 / 2)), CNum (NFloat 50), CNull]),
              (''baro_altitude'', [CNum (NInt 10000), CNull, CNull]),
              (''on_ground'', [CBool False, CBool False, CBool True]),
              (''velocity'', [CNum (NFloat (451 / 2)), CNum (NInt 200), CNum (NInt 0)]),
              (''true_track'', [CNum (NInt 90), CNum (NInt 180), CNull]),
              (''vertical_rate'', [CNum (NInt 0), CNull, CNull]),
              (''sensors'', [CNull, CNull, CNull]),
              (''geo_altitude'', [CNum (NInt 10100), CNull, CNull]),
              (''squawk'', [CNum (NInt 7000), CNull, CNull]),
              (''spi'', [CBool False, CBool False, CBool False]),
              (''position_source'', [CNum (NInt 0), CNum (NInt 0), CNum (NInt 3)])]\<rparr>"

definition header_only_file :: frame where
  "header_only_file = \<lparr>nrows = 0, cols = map (\<lambda>c. (fst c, [])) (cols three_row_file)\<rparr>"

text \<open>
  The three rows with other values in the two boolean columns: upper case, a word that
  is neither \<open>true\<close> nor \<open>false\<close>, a missing value, a boolean and a number.
\<close>

definition boolean_chunk :: frame where
  "boolean_chunk =
     set_col (set_col three_row_file ''on_ground'' [CStr ''TRUE'', CStr ''yes'', CNull])
       ''spi'' [CStr ''false'', CBool True, CNum (NInt 0)]"

text \<open>
  A world of the loader: four files in the ledger, all \<open>NEW\<close>; three of them in the
  raw-data directory, one with no rows, one with the fractional \<open>position_source\<close> and one
  with three good rows; and cleaned files left by an earlier run.
\<close>

definition loader_world :: world where
  "loader_world =
     blank_world\<lparr>clock := 1700000100,
       file_log := [new_file_row ''states_eu_0.csv'', new_file_row ''states_eu_1.csv'',
                    new_file_row ''states_eu_2.csv'', new_file_row ''states_eu_3.csv''],
       raw_data_dir :=
         Some [(''states_eu_0.csv'', header_only_file), (''states_eu_1.csv'', fractional_chunk),
               (''states_eu_2.csv'', three_row_file)],
       clean_data_dir :=
         [(''clean_states_eu_0.csv'', [Header [''icao24''], Row [CStr ''stale'']]),
          (''clean_states_eu_2.csv'', [Header [''icao24''], Row [CStr ''stale'']])]\<rparr>"

text \<open>A token endpoint that answers with the given status and body.\<close>

definition token_world :: "nat \<Rightarrow> json option \<Rightarrow> world" where
  "token_world code b = blank_world\<lparr>token_reply := Inr \<lparr>status_code = code, body = b\<rparr>\<rparr>"

text \<open>A snapshot of two state vectors.\<close>

definition two_state_rows :: "json list list" where
  "two_state_rows =
     [[JStr ''4b1814'', JStr ''SWR12'', JStr ''Switzerland'', JNum 1700000000,
       JNum 1700000001, JNum (17 / 2), JNum 47, JNum 10000, JBool False, JNum 230,
       JNum 90, JNum 0, JNull, JNum 10100, JStr ''1000'', JBool False, JNum 0],
      [JStr ''3c6444'', JStr ''DLH7'', JStr ''Germany'', JNull,
       JNum 1700000002, JNull, JNull, JNull, JBool True, JNum 0,
       JNull, JNull, JNull, JNull, JNull, JBool False, JNum 0]]"

definition two_states :: "(string \<times> json) list" where
  "two_states = [(''time'', JNum 1700000000), (''states'', JArr (map JArr two_state_rows))]"

text \<open>
  A control database with one job and one older, closed log row. The token endpoint
  answers with a token and the API with status 503.
\<close>

definition crawl_job :: "(string \<times> string) list" where
  "crawl_job =
     [(''job_name'', ''crawl_eu''), (''base_url'', ''https://opensky-network.org/api''),
      (''endpoint'', ''/states/all''), (''lamin'', ''35''), (''lomin'', ''-10''),
      (''lamax'', ''70''), (''lomax'', ''40''), (''client_id'', ''id''),
      (''client_secret'', ''secret''), (''output_path'', ''data'')]"

definition job_world :: world where
  "job_world =
     blank_world\<lparr>clock := 1700000000,
       job_definitions := [(''crawl_eu'', crawl_job)],
       configuration := [(''opensky_token_url'', ''https://auth.example/token'')],
       job_logs := [\<lparr>jl_log_id = 1, jl_job_name = ''crawl_eu'', jl_start_time = 1600000000,
                      jl_end_time = Some 1600000005, jl_status = ''COMPLETED'',
                      jl_message = None\<rparr>],
       job_logs_seq := 1,
       token_reply := Inr \<lparr>status_code = 200,
                            body = Some (JObj [(''access_token'', JStr ''t0'')])\<rparr>,
       api_reply := Inr \<lparr>status_code = 503, body = None\<rparr>\<rparr>"

section \<open>Properties of the file ledger\<close>

lemma db_execute_cases:
  "(\<exists>w'. db_execute w = (None, w') \<and> (w' = w \<or> (\<exists>fs. w' = w\<lparr>db_faults := fs\<rparr>))) \<or>
   (\<exists>e fs. db_execute w = (Some e, w\<lparr>db_faults := fs\<rparr>))"
  by (auto simp: db_execute_def split: list.splits option.splits)

lemma db_execute_frame:
  "db_execute w = (r, w') \<Longrightarrow> file_log w' = file_log w \<and> clock w' = clock w \<and> raw_data_dir w' = raw_data_dir w \<and> job_logs w' = job_logs w"
  by (auto simp: db_execute_def split: list.splits)

lemma foldl_insert_names:
  "set (map fl_file_name (foldl insert_file_name tbl fs)) = set (map fl_file_name tbl) \<union> set fs"
  by (induction fs arbitrary: tbl) (auto simp: insert_file_name_def new_file_row_def)

lemma foldl_insert_known:
  "set fs \<subseteq> set (map fl_file_name tbl) \<Longrightarrow> foldl insert_file_name tbl fs = tbl"
  by (induction fs arbitrary: tbl) (auto simp: insert_file_name_def)

lemma foldl_insert_append:
  "\<exists>new. foldl insert_file_name tbl fs = tbl @ map new_file_row new \<and>
         set new \<subseteq> set fs - set (map fl_file_name tbl) \<and> distinct new"
proof (induction fs arbitrary: tbl)
  case Nil
  show ?case by (rule exI[of _ "[]"]) simp
next
  case (Cons f fs)
  show ?case
  proof (cases "f \<in> set (map fl_file_name tbl)")
    case True
    then have "foldl insert_file_name tbl (f # fs) = foldl insert_file_name tbl fs"
      by (simp add: insert_file_name_def)
    with Cons.IH[of tbl] True show ?thesis by auto
  next
    case False
    then have e: "foldl insert_file_name tbl (f # fs) = foldl insert_file_name (tbl @ [new_file_row f]) fs"
      by (simp add: insert_file_name_def)
    from Cons.IH[of "tbl @ [new_file_row f]"] obtain new where
      n: "foldl insert_file_name (tbl @ [new_file_row f]) fs = (tbl @ [new_file_row f]) @ map new_file_row new"
         "set new \<subseteq> set fs - set (map fl_file_name (tbl @ [new_file_row f]))" "distinct new"
      by blast
    have "f \<notin> set new" using n(2) by (auto simp: new_file_row_def)
    then show ?thesis using e n False
      by (intro exI[of _ "f # new"]) (auto simp: new_file_row_def)
  qed
qed


lemma register_frame:
  "raw_data_dir (register_new_files w fs) = raw_data_dir w"
  by (auto simp: register_new_files_def db_execute_def split: list.splits option.splits)

lemma get_processed_frame:
  "get_processed_files w = (w1, p) \<Longrightarrow> file_log w1 = file_log w \<and> raw_data_dir w1 = raw_data_dir w"
  by (auto simp: get_processed_files_def db_execute_def split: list.splits option.splits)

lemma get_processed_subset:
  "get_processed_files w = (w1, p) \<Longrightarrow> p \<subseteq> set (map fl_file_name (file_log w))"
  by (auto simp: get_processed_files_def db_execute_def split: list.splits option.splits)

lemma register_file_log:
  "file_log (register_new_files w fs) = file_log w \<or>
   file_log (register_new_files w fs) = foldl insert_file_name (file_log w) fs"
  by (auto simp: register_new_files_def db_execute_def split: list.splits option.splits)

lemma register_known:
  "set fs \<subseteq> set (map fl_file_name (file_log w)) \<Longrightarrow> file_log (register_new_files w fs) = file_log w"
  using register_file_log[of w fs] foldl_insert_known[of fs "file_log w"] by auto

lemma dr_raw_dir: "raw_data_dir (discover_and_register w) = raw_data_dir w"
  by (auto simp: discover_and_register_def register_frame dest: get_processed_frame split: sum.splits prod.splits)

lemma dr_append:
  "\<exists>new. file_log (discover_and_register w) = file_log w @ map new_file_row new \<and>
         set new \<inter> set (map fl_file_name (file_log w)) = {} \<and> distinct new"
proof -
  have triv: "\<exists>new. file_log w = file_log w @ map new_file_row new \<and>
         set new \<inter> set (map fl_file_name (file_log w)) = {} \<and> distinct new"
    by (rule exI[of _ "[]"]) simp
  show ?thesis
  proof (cases "list_csv_files w")
    case (Inl e)
    then show ?thesis using triv by (simp add: discover_and_register_def)
  next
    case (Inr csv)
    show ?thesis
    proof (cases "csv = []")
      case True
      then show ?thesis using triv Inr by (simp add: discover_and_register_def)
    next
      case False
      obtain w1 p where g: "get_processed_files w = (w1, p)" by (cases "get_processed_files w")
      let ?fs = "filter (\<lambda>f. f \<notin> p) csv"
      have d: "discover_and_register w = register_new_files w1 ?fs"
        using Inr False g by (simp add: discover_and_register_def)
      have fl: "file_log w1 = file_log w" using get_processed_frame[OF g] by simp
      from register_file_log[of w1 ?fs] show ?thesis
      proof
        assume "file_log (register_new_files w1 ?fs) = file_log w1"
        then show ?thesis using triv d fl by simp
      next
        assume a: "file_log (register_new_files w1 ?fs) = foldl insert_file_name (file_log w1) ?fs"
        from foldl_insert_append[of "file_log w" ?fs] obtain new where
          "foldl insert_file_name (file_log w) ?fs = file_log w @ map new_file_row new"
          "set new \<subseteq> set ?fs - set (map fl_file_name (file_log w))" "distinct new" by blast
        then show ?thesis using a d fl by (intro exI[of _ new]) auto
      qed
    qed
  qed
qed

lemma dr_all_known:
  assumes "db_faults w = []" "list_csv_files w = Inr csv"
  shows "set csv \<subseteq> set (map fl_file_name (file_log (discover_and_register w)))"
proof (cases "csv = []")
  case True then show ?thesis by simp
next
  case False
  have g: "get_processed_files w = (w, set (map fl_file_name (filter (\<lambda>r. fl_status r \<noteq> ''NEW'') (file_log w))))"
    using assms(1) by (simp add: get_processed_files_def db_execute_def)
  let ?p = "set (map fl_file_name (filter (\<lambda>r. fl_status r \<noteq> ''NEW'') (file_log w)))"
  let ?fs = "filter (\<lambda>f. f \<notin> ?p) csv"
  have d: "discover_and_register w = register_new_files w ?fs"
    using assms(2) False g by (simp add: discover_and_register_def)
  have r: "file_log (register_new_files w ?fs) = foldl insert_file_name (file_log w) ?fs"
    using assms(1) by (simp add: register_new_files_def db_execute_def)
  have "?p \<subseteq> set (map fl_file_name (file_log w))" by auto
  then show ?thesis unfolding d r foldl_insert_names by auto
qed

lemma dr_known_unchanged:
  assumes "list_csv_files w = Inr csv" "set csv \<subseteq> set (map fl_file_name (file_log w))"
  shows "file_log (discover_and_register w) = file_log w"
proof (cases "csv = []")
  case True then show ?thesis using assms by (simp add: discover_and_register_def)
next
  case False
  obtain w1 p where g: "get_processed_files w = (w1, p)" by (cases "get_processed_files w")
  have fl: "file_log w1 = file_log w" using get_processed_frame[OF g] by simp
  have d: "discover_and_register w = register_new_files w1 (filter (\<lambda>f. f \<notin> p) csv)"
    using assms(1) False g by (simp add: discover_and_register_def)
  have "set (filter (\<lambda>f. f \<notin> p) csv) \<subseteq> set (map fl_file_name (file_log w1))"
    using assms(2) fl by auto
  from register_known[OF this] show ?thesis using d fl by simp
qed

text \<open>
  Claim C2. A run of discovery and registration only appends rows, for names the ledger
  did not hold, each once: no row for a known name is inserted and no existing row, its
  status included, changes. This holds whatever the database does. Once a run whose
  statements all went through has registered the directory, a further run on the same
  directory and the same ledger, with or without database errors, leaves \<open>file_log\<close> as it
  is.
\<close>

theorem discover_and_register_idempotent:
  "(\<exists>new. file_log (discover_and_register w) = file_log w @ map new_file_row new \<and>
          set new \<inter> set (map fl_file_name (file_log w)) = {} \<and> distinct new) \<and>
   (distinct (map fl_file_name (file_log w))
      \<longrightarrow> distinct (map fl_file_name (file_log (discover_and_register w)))) \<and>
   (db_faults w = [] \<and> file_log w2 = file_log (discover_and_register w) \<and>
    raw_data_dir w2 = raw_data_dir w
      \<longrightarrow> file_log (discover_and_register w2) = file_log w2)"
proof (intro conjI impI)
  show "\<exists>new. file_log (discover_and_register w) = file_log w @ map new_file_row new \<and>
          set new \<inter> set (map fl_file_name (file_log w)) = {} \<and> distinct new"
    by (rule dr_append)
next
  assume d: "distinct (map fl_file_name (file_log w))"
  from dr_append[of w] obtain new where
    n: "file_log (discover_and_register w) = file_log w @ map new_file_row new"
       "set new \<inter> set (map fl_file_name (file_log w)) = {}" "distinct new"
    by blast
  have "map fl_file_name (map new_file_row new) = new"
    by (induction new) (simp_all add: new_file_row_def)
  then have "map fl_file_name (file_log (discover_and_register w)) = map fl_file_name (file_log w) @ new"
    using n(1) by simp
  then show "distinct (map fl_file_name (file_log (discover_and_register w)))"
    using d n(2,3) by auto
next
  assume a: "db_faults w = [] \<and> file_log w2 = file_log (discover_and_register w) \<and>
    raw_data_dir w2 = raw_data_dir w"
  show "file_log (discover_and_register w2) = file_log w2"
  proof (cases "list_csv_files w")
    case (Inl e)
    then have "list_csv_files w2 = Inl e" using a by (simp add: list_csv_files_def)
    then show ?thesis by (simp add: discover_and_register_def)
  next
    case (Inr csv)
    then have l2: "list_csv_files w2 = Inr csv" using a by (simp add: list_csv_files_def)
    have "set csv \<subseteq> set (map fl_file_name (file_log w2))"
      using dr_all_known[OF _ Inr] a by simp
    from dr_known_unchanged[OF l2 this] show ?thesis .
  qed
qed

text \<open>
  A ledger with a failed file and a new one, and a directory with one more matching
  file: the first run registers the third file, the second run changes nothing.
\<close>

theorem discover_and_register_idempotent_witness:
  "db_faults ledger_world = [] \<and>
   map fl_file_name (file_log (discover_and_register ledger_world)) = [''states_a.csv'', ''states_b.csv'', ''states_c.csv''] \<and>
   map fl_status (file_log (discover_and_register ledger_world)) = [''FAILED'', ''NEW'', ''NEW''] \<and>
   file_log (discover_and_register (discover_and_register ledger_world)) = file_log (discover_and_register ledger_world)"
proof -
  have a: "db_faults ledger_world = []" by (simp add: ledger_world_def blank_world_def)
  have b: "list_csv_files ledger_world = Inr [''states_a.csv'', ''states_c.csv'']"
    by (simp add: list_csv_files_def ledger_world_def blank_world_def startswith_def endswith_def)
  have c: "file_log (discover_and_register ledger_world) = file_log ledger_world @ [new_file_row ''states_c.csv'']"
    by code_simp
  from discover_and_register_idempotent[of ledger_world "discover_and_register ledger_world"]
  show ?thesis using a c by (simp add: dr_raw_dir) (simp add: ledger_world_def blank_world_def new_file_row_def)
qed

text \<open>
  Claim C9. When its \<open>UPDATE\<close> goes through, \<open>update_file_log\<close> keeps the table's rows and
  their names, sets \<open>status\<close>, \<open>row_count\<close>, \<open>error_message\<close> and \<open>last_updated\<close> of every row
  with the given name to the values of the call (so \<open>None\<close> where the caller left the
  argument out), and leaves every other row as it was.
\<close>

theorem update_file_log_overwrites_four_columns:
  "fst (db_execute w) = None \<Longrightarrow>
   length (file_log (update_file_log w f st rc msg)) = length (file_log w) \<and>
   (\<forall>i<length (file_log w).
      fl_file_name (file_log (update_file_log w f st rc msg) ! i) = fl_file_name (file_log w ! i) \<and>
      (if fl_file_name (file_log w ! i) = f
       then fl_status (file_log (update_file_log w f st rc msg) ! i) = st \<and>
            fl_row_count (file_log (update_file_log w f st rc msg) ! i) = rc \<and>
            fl_error_message (file_log (update_file_log w f st rc msg) ! i) = msg \<and>
            fl_last_updated (file_log (update_file_log w f st rc msg) ! i) = Some (clock w)
       else file_log (update_file_log w f st rc msg) ! i = file_log w ! i))"
proof -
  assume ok: "fst (db_execute w) = None"
  obtain w' where e: "db_execute w = (None, w')" using ok by (cases "db_execute w") auto
  have fr: "file_log w' = file_log w" "clock w' = clock w" using db_execute_frame[OF e] by auto
  have u: "file_log (update_file_log w f st rc msg) = map (set_file_row f st rc msg (clock w)) (file_log w)"
    using e fr by (simp add: update_file_log_def)
  show ?thesis unfolding u by (simp add: set_file_row_def)
qed

text \<open>
  Marking a file \<open>PROCESSING\<close> erases the row count and the error message the row held;
  marking it \<open>CLEAN_EXPORTED\<close> erases the error message.
\<close>

theorem update_file_log_overwrites_four_columns_witness:
  "fst (db_execute ledger_world) = None \<and>
   fl_row_count (file_log ledger_world ! 0) = Some 7 \<and>
   fl_error_message (file_log ledger_world ! 0) = Some ''boom'' \<and>
   fl_status (file_log (update_file_log ledger_world ''states_a.csv'' ''PROCESSING'' None None) ! 0) = ''PROCESSING'' \<and>
   fl_row_count (file_log (update_file_log ledger_world ''states_a.csv'' ''PROCESSING'' None None) ! 0) = None \<and>
   fl_error_message (file_log (update_file_log ledger_world ''states_a.csv'' ''PROCESSING'' None None) ! 0) = None \<and>
   fl_last_updated (file_log (update_file_log ledger_world ''states_a.csv'' ''PROCESSING'' None None) ! 0) = Some 50 \<and>
   fl_error_message (file_log (update_file_log ledger_world ''states_a.csv'' ''CLEAN_EXPORTED'' (Some 3) None) ! 0) = None \<and>
   file_log (update_file_log ledger_world ''states_a.csv'' ''PROCESSING'' None None) ! 1 = file_log ledger_world ! 1"
proof -
  have ok: "fst (db_execute ledger_world) = None"
    by (simp add: db_execute_def ledger_world_def blank_world_def)
  have n: "length (file_log ledger_world) = 2" "fl_file_name (file_log ledger_world ! 0) = ''states_a.csv''"
     "fl_file_name (file_log ledger_world ! 1) \<noteq> ''states_a.csv''"
     "fl_row_count (file_log ledger_world ! 0) = Some 7"
     "fl_error_message (file_log ledger_world ! 0) = Some ''boom''"
     "clock ledger_world = 50"
    by (simp_all add: ledger_world_def blank_world_def)
  from update_file_log_overwrites_four_columns[OF ok, of "''states_a.csv''" "''PROCESSING''" None None]
       update_file_log_overwrites_four_columns[OF ok, of "''states_a.csv''" "''CLEAN_EXPORTED''" "Some 3" None]
  show ?thesis using ok n by (auto simp: less_2_cases_iff)
qed


section \<open>Properties of the transform\<close>

lemma map_of_set_col: "map_of (cols (set_col df c vs)) = (map_of (cols df))(c \<mapsto> vs)"
  by (simp add: set_col_def update_conv')

lemma nrows_set_col: "nrows (set_col df c vs) = nrows df"
  by (simp add: set_col_def)

lemma names_set_col_present:
  "map_of (cols df) c = Some old \<Longrightarrow> map fst (cols (set_col df c vs)) = map fst (cols df)"
  by (auto simp: set_col_def update_keys dest: map_of_SomeD intro: rev_image_eqI)

lemma apply_col_Inr:
  "apply_col f c df = Inr df' \<longleftrightarrow> (\<exists>vs. map_of (cols df) c = Some vs \<and> df' = set_col df c (f vs))"
  by (auto simp: apply_col_def get_col_def split: option.splits)

lemma apply_col_Inl:
  "apply_col f c df = Inl e \<longleftrightarrow> (map_of (cols df) c = None \<and> e = KeyError c)"
  by (auto simp: apply_col_def get_col_def split: option.splits)

lemma map_exn_Inr_D: "map_exn f xs = Inr ys \<Longrightarrow> list_all2 (\<lambda>x y. f x = Inr y) xs ys"
  by (induction xs arbitrary: ys) (auto split: sum.splits)

lemma map_exn_Inr_I: "list_all2 (\<lambda>x y. f x = Inr y) xs ys \<Longrightarrow> map_exn f xs = Inr ys"
  by (induction xs ys rule: list_all2_induct) auto

lemma map_exn_Inr: "map_exn f xs = Inr ys \<longleftrightarrow> list_all2 (\<lambda>x y. f x = Inr y) xs ys"
  using map_exn_Inr_D map_exn_Inr_I by blast


lemma map_exn_total:
  "(\<forall>x\<in>set xs. \<exists>y. f x = Inr y) \<Longrightarrow> \<exists>ys. map_exn f xs = Inr ys"
  by (induction xs) (auto split: sum.splits)

lemma map_exn_Inl:
  "map_exn f xs = Inl e \<Longrightarrow> \<exists>x\<in>set xs. f x = Inl e"
  by (induction xs) (auto split: sum.splits)

lemma apply_col_exn_Inr:
  "apply_col_exn f c df = Inr df' \<longleftrightarrow>
     (\<exists>vs vs'. map_of (cols df) c = Some vs \<and> f vs = Inr vs' \<and> df' = set_col df c vs')"
  by (auto simp: apply_col_exn_def get_col_def split: option.splits sum.splits)




lemma coerce_numeric_cols_Inr:
  "coerce_numeric_cols L cs df = Inr df' \<Longrightarrow> distinct cs \<Longrightarrow>
   nrows df' = nrows df \<and> map fst (cols df') = map fst (cols df) \<and>
   (\<forall>c\<in>set cs. map_of (cols df) c \<noteq> None) \<and>
   map_of (cols df') =
     (\<lambda>c. if c \<in> set cs then map_option (to_numeric L) (map_of (cols df) c)
          else map_of (cols df) c)"
proof (induction cs arbitrary: df)
  case Nil
  then show ?case by auto
next
  case (Cons c cs)
  from Cons.prems(1) obtain d1 where a: "apply_col (to_numeric L) c df = Inr d1"
    and r: "coerce_numeric_cols L cs d1 = Inr df'"
    by (auto split: sum.splits)
  from a obtain vs where vs: "map_of (cols df) c = Some vs" "d1 = set_col df c (to_numeric L vs)"
    by (auto simp: apply_col_Inr)
  from Cons.IH[OF r] Cons.prems(2) have ih:
    "nrows df' = nrows d1" "map fst (cols df') = map fst (cols d1)"
    "\<forall>c\<in>set cs. map_of (cols d1) c \<noteq> None"
    "map_of (cols df') =
     (\<lambda>c. if c \<in> set cs then map_option (to_numeric L) (map_of (cols d1) c)
          else map_of (cols d1) c)"
    by auto
  have m1: "map_of (cols d1) = (map_of (cols df))(c \<mapsto> to_numeric L vs)"
    by (simp add: vs(2) map_of_set_col)
  have c: "c \<notin> set cs" using Cons.prems(2) by simp
  have p1: "nrows df' = nrows df" using ih(1) vs(2) by (simp add: nrows_set_col)
  have p2: "map fst (cols df') = map fst (cols df)"
    using ih(2) vs by (simp add: names_set_col_present)
  have p3: "\<forall>c'\<in>set (c # cs). map_of (cols df) c' \<noteq> None"
  proof
    fix c' assume c': "c' \<in> set (c # cs)"
    show "map_of (cols df) c' \<noteq> None"
    proof (cases "c' = c")
      case True then show ?thesis using vs(1) by simp
    next
      case False
      then have "c' \<in> set cs" using c' by simp
      with ih(3) have "map_of (cols d1) c' \<noteq> None" by blast
      then show ?thesis using False by (simp add: m1)
    qed
  qed
  have p4: "map_of (cols df') =
     (\<lambda>c'. if c' \<in> set (c # cs) then map_option (to_numeric L) (map_of (cols df) c')
          else map_of (cols df) c')"
    using c vs(1) by (auto simp: ih(4) m1 fun_eq_iff)
  show ?case using p1 p2 p3 p4 by blast
qed

lemma coerce_numeric_cols_total:
  "\<forall>c\<in>set cs. map_of (cols df) c \<noteq> None \<Longrightarrow> \<exists>df'. coerce_numeric_cols L cs df = Inr df'"
proof (induction cs arbitrary: df)
  case Nil
  then show ?case by simp
next
  case (Cons c cs)
  then obtain vs where vs: "map_of (cols df) c = Some vs" by auto
  have a: "apply_col (to_numeric L) c df = Inr (set_col df c (to_numeric L vs))"
    using vs by (simp add: apply_col_Inr)
  have "\<forall>c'\<in>set cs. map_of (cols (set_col df c (to_numeric L vs))) c' \<noteq> None"
    using Cons.prems by (simp add: map_of_set_col)
  from Cons.IH[OF this] show ?case using a by simp
qed

lemma coerce_numeric_cols_Inl:
  "coerce_numeric_cols L cs df = Inl e \<Longrightarrow>
   \<exists>c\<in>set cs. e = KeyError c \<and> map_of (cols df) c = None"
proof (induction cs arbitrary: df)
  case Nil
  then show ?case by simp
next
  case (Cons c cs)
  show ?case
  proof (cases "apply_col (to_numeric L) c df")
    case (Inl e')
    then have "e = e'" using Cons.prems by simp
    then show ?thesis using Inl by (auto simp: apply_col_Inl)
  next
    case (Inr d1)
    then have r: "coerce_numeric_cols L cs d1 = Inl e" using Cons.prems by simp
    from Inr obtain vs where vs: "d1 = set_col df c (to_numeric L vs)"
      by (auto simp: apply_col_Inr)
    from Cons.IH[OF r] obtain c' where c': "c' \<in> set cs" "e = KeyError c'" "map_of (cols d1) c' = None"
      by blast
    then have "map_of (cols df) c' = None" by (auto simp: vs map_of_set_col split: if_splits)
    then show ?thesis using c' by auto
  qed
qed

lemma add_missing_cols_props:
  "nrows (add_missing_cols cs df) = nrows df \<and>
   map_of (cols (add_missing_cols cs df)) =
     (\<lambda>c. if c \<in> set cs \<and> map_of (cols df) c = None then Some (replicate (nrows df) CNull)
          else map_of (cols df) c)"
proof (induction cs arbitrary: df)
  case Nil
  show ?case by simp
next
  case (Cons c cs)
  show ?case
  proof (cases "c \<in> set (map fst (cols df))")
    case True
    then have "map_of (cols df) c \<noteq> None" by (simp add: map_of_eq_None_iff)
    then show ?thesis using True Cons.IH[of df] by (auto simp: fun_eq_iff)
  next
    case False
    then have n: "map_of (cols df) c = None" by (simp add: map_of_eq_None_iff)
    show ?thesis using False n Cons.IH[of "set_col df c (replicate (nrows df) CNull)"]
      by (auto simp: fun_eq_iff map_of_set_col nrows_set_col)
  qed
qed

lemma map_exn_get_col:
  "map_exn (get_col df) names = Inr css \<Longrightarrow>
   length css = length names \<and> (\<forall>i<length names. map_of (cols df) (names ! i) = Some (css ! i))"
  by (auto simp: map_exn_Inr list_all2_conv_all_nth get_col_def split: option.splits)

lemma select_cols_Inr:
  assumes "select_cols names df = Inr out" "distinct names"
  shows "nrows out = nrows df \<and> map fst (cols out) = names \<and>
         (\<forall>c\<in>set names. map_of (cols out) c = map_of (cols df) c)"
proof -
  from assms(1) obtain css where c: "map_exn (get_col df) names = Inr css"
    and o: "out = \<lparr>nrows = nrows df, cols = zip names css\<rparr>"
    by (auto simp: select_cols_def split: sum.splits)
  from map_exn_get_col[OF c] have l: "length css = length names"
    and g: "\<forall>i<length names. map_of (cols df) (names ! i) = Some (css ! i)" by auto
  have "\<forall>c\<in>set names. map_of (zip names css) c = map_of (cols df) c"
  proof
    fix c assume "c \<in> set names"
    then obtain i where i: "i < length names" "names ! i = c" by (auto simp: in_set_conv_nth)
    have "map_of (zip names css) (names ! i) = Some (css ! i)"
      using assms(2) l i(1) by (simp add: map_of_zip_nth)
    then show "map_of (zip names css) c = map_of (cols df) c" using g i by auto
  qed
  then show ?thesis using o l by simp
qed

lemma select_cols_total:
  "\<forall>c\<in>set names. map_of (cols df) c \<noteq> None \<Longrightarrow> \<exists>out. select_cols names df = Inr out"
proof -
  assume "\<forall>c\<in>set names. map_of (cols df) c \<noteq> None"
  then have "\<forall>c\<in>set names. \<exists>y. get_col df c = Inr y" by (auto simp: get_col_def)
  from map_exn_total[OF this] show ?thesis by (auto simp: select_cols_def)
qed

lemma distinct_final_columns: "distinct final_columns"
  by (simp add: final_columns_def)

lemma distinct_numeric_cols: "distinct numeric_cols"
  by (simp add: numeric_cols_def)

text \<open>What a returning call of \<open>transform_chunk\<close> has done, step by step.\<close>

lemma transform_chunk_steps:
  assumes "transform_chunk L df = Inr (df', out)"
  obtains ps ps' tp tp' lc lc' og sp where
    "\<forall>c\<in>set numeric_cols. map_of (cols df) c \<noteq> None"
    "map_of (cols df) ''position_source'' = Some ps"
    "to_nullable_int L ps = Inr ps'"
    "map_of (cols df) ''time_position'' = Some tp"
    "to_datetime_s L tp = Inr tp'"
    "map_of (cols df) ''last_contact'' = Some lc"
    "to_datetime_s L lc = Inr lc'"
    "map_of (cols df) ''on_ground'' = Some og"
    "map_of (cols df) ''spi'' = Some sp"
    "nrows df' = nrows df" "nrows out = nrows df" "map fst (cols out) = final_columns"
    "\<forall>c\<in>set final_columns. map_of (cols out) c = map_of (cols df') c"
    "map_of (cols df') =
       (\<lambda>c. if c = ''spi'' then Some (map (coerce_bool L) sp)
            else if c = ''on_ground'' then Some (map (coerce_bool L) og)
            else if c = ''last_contact'' then Some lc'
            else if c = ''time_position'' then Some tp'
            else if c = ''position_source'' then Some ps'
            else if c \<in> set numeric_cols then map_option (to_numeric L) (map_of (cols df) c)
            else if c \<in> set final_columns \<and> map_of (cols df) c = None
                 then Some (replicate (nrows df) CNull)
            else map_of (cols df) c)"
proof -
  from assms obtain df1 df2 df3 df4 df5 df6 where
    s1: "coerce_numeric_cols L numeric_cols df = Inr df1" and
    s2: "apply_col_exn (to_nullable_int L) ''position_source'' df1 = Inr df2" and
    s3: "apply_col_exn (to_datetime_s L) ''time_position'' df2 = Inr df3" and
    s4: "apply_col_exn (to_datetime_s L) ''last_contact'' df3 = Inr df4" and
    s5: "apply_col (map (coerce_bool L)) ''on_ground'' df4 = Inr df5" and
    s6: "apply_col (map (coerce_bool L)) ''spi'' df5 = Inr df6" and
    s7: "select_cols final_columns (add_missing_cols final_columns df6) = Inr out" and
    s8: "df' = add_missing_cols final_columns df6"
    unfolding transform_chunk_def by (auto split: sum.splits)
  from coerce_numeric_cols_Inr[OF s1 distinct_numeric_cols] have
    n1: "nrows df1 = nrows df" and k1: "\<forall>c\<in>set numeric_cols. map_of (cols df) c \<noteq> None" and
    m1: "map_of (cols df1) =
     (\<lambda>c. if c \<in> set numeric_cols then map_option (to_numeric L) (map_of (cols df) c)
          else map_of (cols df) c)" by auto
  from s2 obtain ps ps' where ps: "map_of (cols df1) ''position_source'' = Some ps"
    "to_nullable_int L ps = Inr ps'" "df2 = set_col df1 ''position_source'' ps'"
    by (auto simp: apply_col_exn_Inr)
  have m2: "map_of (cols df2) = (map_of (cols df1))(''position_source'' \<mapsto> ps')"
    and n2: "nrows df2 = nrows df" using ps(3) n1 by (simp_all add: map_of_set_col nrows_set_col)
  from s3 obtain tp tp' where tp: "map_of (cols df2) ''time_position'' = Some tp"
    "to_datetime_s L tp = Inr tp'" "df3 = set_col df2 ''time_position'' tp'"
    by (auto simp: apply_col_exn_Inr)
  have m3: "map_of (cols df3) = (map_of (cols df2))(''time_position'' \<mapsto> tp')"
    and n3: "nrows df3 = nrows df" using tp(3) n2 by (simp_all add: map_of_set_col nrows_set_col)
  from s4 obtain lc lc' where lc: "map_of (cols df3) ''last_contact'' = Some lc"
    "to_datetime_s L lc = Inr lc'" "df4 = set_col df3 ''last_contact'' lc'"
    by (auto simp: apply_col_exn_Inr)
  have m4: "map_of (cols df4) = (map_of (cols df3))(''last_contact'' \<mapsto> lc')"
    and n4: "nrows df4 = nrows df" using lc(3) n3 by (simp_all add: map_of_set_col nrows_set_col)
  from s5 obtain og where og: "map_of (cols df4) ''on_ground'' = Some og"
    "df5 = set_col df4 ''on_ground'' (map (coerce_bool L) og)"
    by (auto simp: apply_col_Inr)
  have m5: "map_of (cols df5) = (map_of (cols df4))(''on_ground'' \<mapsto> map (coerce_bool L) og)"
    and n5: "nrows df5 = nrows df" using og(2) n4 by (simp_all add: map_of_set_col nrows_set_col)
  from s6 obtain sp where sp: "map_of (cols df5) ''spi'' = Some sp"
    "df6 = set_col df5 ''spi'' (map (coerce_bool L) sp)"
    by (auto simp: apply_col_Inr)
  have m6: "map_of (cols df6) = (map_of (cols df5))(''spi'' \<mapsto> map (coerce_bool L) sp)"
    and n6: "nrows df6 = nrows df" using sp(2) n5 by (simp_all add: map_of_set_col nrows_set_col)
  have ps0: "map_of (cols df) ''position_source'' = Some ps"
    using ps(1) by (simp add: m1 numeric_cols_def)
  have tp0: "map_of (cols df) ''time_position'' = Some tp"
    using tp(1) by (simp add: m2 m1 numeric_cols_def)
  have lc0: "map_of (cols df) ''last_contact'' = Some lc"
    using lc(1) by (simp add: m3 m2 m1 numeric_cols_def)
  have og0: "map_of (cols df) ''on_ground'' = Some og"
    using og(1) by (simp add: m4 m3 m2 m1 numeric_cols_def)
  have sp0: "map_of (cols df) ''spi'' = Some sp"
    using sp(1) by (simp add: m5 m4 m3 m2 m1 numeric_cols_def)
  from add_missing_cols_props[of final_columns df6] have
    n7: "nrows df' = nrows df" and
    m7: "map_of (cols df') =
      (\<lambda>c. if c \<in> set final_columns \<and> map_of (cols df6) c = None
           then Some (replicate (nrows df6) CNull) else map_of (cols df6) c)"
    using s8 n6 by auto
  from select_cols_Inr[OF s7 distinct_final_columns] have
    o: "nrows out = nrows df" "map fst (cols out) = final_columns"
       "\<forall>c\<in>set final_columns. map_of (cols out) c = map_of (cols df') c"
    using s8 n7 by auto
  have mm: "map_of (cols df') =
       (\<lambda>c. if c = ''spi'' then Some (map (coerce_bool L) sp)
            else if c = ''on_ground'' then Some (map (coerce_bool L) og)
            else if c = ''last_contact'' then Some lc'
            else if c = ''time_position'' then Some tp'
            else if c = ''position_source'' then Some ps'
            else if c \<in> set numeric_cols then map_option (to_numeric L) (map_of (cols df) c)
            else if c \<in> set final_columns \<and> map_of (cols df) c = None
                 then Some (replicate (nrows df) CNull)
            else map_of (cols df) c)"
  proof
    fix c
    show "map_of (cols df') c =
       (if c = ''spi'' then Some (map (coerce_bool L) sp)
            else if c = ''on_ground'' then Some (map (coerce_bool L) og)
            else if c = ''last_contact'' then Some lc'
            else if c = ''time_position'' then Some tp'
            else if c = ''position_source'' then Some ps'
            else if c \<in> set numeric_cols then map_option (to_numeric L) (map_of (cols df) c)
            else if c \<in> set final_columns \<and> map_of (cols df) c = None
                 then Some (replicate (nrows df) CNull)
            else map_of (cols df) c)"
      using k1 by (auto simp: m7 m6 m5 m4 m3 m2 m1 n6)
  qed
  show ?thesis
    by (rule that[OF k1 ps0 ps(2) tp0 tp(2) lc0 lc(2) og0 sp0 n7 o(1) o(2) o(3) mm])
qed

lemma transform_chunk_total:
  assumes k: "\<forall>c\<in>set numeric_cols. map_of (cols df) c \<noteq> None"
    and ps: "map_of (cols df) ''position_source'' = Some ps"
    and pv: "to_nullable_int L ps = Inr ps'"
    and tp: "map_of (cols df) ''time_position'' = Some tpv"
    and tv: "to_datetime_s L tpv = Inr tp'"
    and lc: "map_of (cols df) ''last_contact'' = Some lcv"
    and lv: "to_datetime_s L lcv = Inr lc'"
    and og: "map_of (cols df) ''on_ground'' \<noteq> None"
    and sp: "map_of (cols df) ''spi'' \<noteq> None"
  shows "\<exists>r. transform_chunk L df = Inr r"
proof -
  from coerce_numeric_cols_total[OF k] obtain df1 where
    s1: "coerce_numeric_cols L numeric_cols df = Inr df1" by blast
  from coerce_numeric_cols_Inr[OF s1 distinct_numeric_cols] have
    m1: "map_of (cols df1) =
     (\<lambda>c. if c \<in> set numeric_cols then map_option (to_numeric L) (map_of (cols df) c)
          else map_of (cols df) c)" by auto
  have ps1: "map_of (cols df1) ''position_source'' = Some ps"
    using ps by (simp add: m1 numeric_cols_def)
  define df2 where "df2 = set_col df1 ''position_source'' ps'"
  have s2: "apply_col_exn (to_nullable_int L) ''position_source'' df1 = Inr df2"
    using ps1 pv by (auto simp: apply_col_exn_Inr df2_def)
  have m2: "map_of (cols df2) = (map_of (cols df1))(''position_source'' \<mapsto> ps')"
    by (simp add: df2_def map_of_set_col)
  have tp2: "map_of (cols df2) ''time_position'' = Some tpv"
    using tp by (auto simp: m2 m1 numeric_cols_def)
  define df3 where "df3 = set_col df2 ''time_position'' tp'"
  have s3: "apply_col_exn (to_datetime_s L) ''time_position'' df2 = Inr df3"
    using tp2 tv by (auto simp: apply_col_exn_Inr df3_def)
  have m3: "map_of (cols df3) = (map_of (cols df2))(''time_position'' \<mapsto> tp')"
    by (simp add: df3_def map_of_set_col)
  have lc3: "map_of (cols df3) ''last_contact'' = Some lcv"
    using lc by (auto simp: m3 m2 m1 numeric_cols_def)
  define df4 where "df4 = set_col df3 ''last_contact'' lc'"
  have s4: "apply_col_exn (to_datetime_s L) ''last_contact'' df3 = Inr df4"
    using lc3 lv by (auto simp: apply_col_exn_Inr df4_def)
  have m4: "map_of (cols df4) = (map_of (cols df3))(''last_contact'' \<mapsto> lc')"
    by (simp add: df4_def map_of_set_col)
  obtain ogv where ogv: "map_of (cols df4) ''on_ground'' = Some ogv"
    using og by (auto simp: m4 m3 m2 m1 numeric_cols_def)
  define df5 where "df5 = set_col df4 ''on_ground'' (map (coerce_bool L) ogv)"
  have s5: "apply_col (map (coerce_bool L)) ''on_ground'' df4 = Inr df5"
    using ogv by (auto simp: apply_col_Inr df5_def)
  have m5: "map_of (cols df5) = (map_of (cols df4))(''on_ground'' \<mapsto> map (coerce_bool L) ogv)"
    by (simp add: df5_def map_of_set_col)
  obtain spv where spv: "map_of (cols df5) ''spi'' = Some spv"
    using sp by (auto simp: m5 m4 m3 m2 m1 numeric_cols_def)
  define df6 where "df6 = set_col df5 ''spi'' (map (coerce_bool L) spv)"
  have s6: "apply_col (map (coerce_bool L)) ''spi'' df5 = Inr df6"
    using spv by (auto simp: apply_col_Inr df6_def)
  have "\<forall>c\<in>set final_columns. map_of (cols (add_missing_cols final_columns df6)) c \<noteq> None"
    using add_missing_cols_props[of final_columns df6] by auto
  from select_cols_total[OF this] obtain out where
    s7: "select_cols final_columns (add_missing_cols final_columns df6) = Inr out" by blast
  show ?thesis unfolding transform_chunk_def by (simp add: s1 s2 s3 s4 s5 s6 s7)
qed

lemma transform_chunk_returns_iff:
  "(\<exists>r. transform_chunk L df = Inr r) \<longleftrightarrow>
     (\<forall>c\<in>set numeric_cols \<union> {''position_source'', ''time_position'', ''last_contact'',
                               ''on_ground'', ''spi''}. map_of (cols df) c \<noteq> None) \<and>
     (\<forall>ps. map_of (cols df) ''position_source'' = Some ps
           \<longrightarrow> (\<exists>ps'. to_nullable_int L ps = Inr ps')) \<and>
     (\<forall>tp. map_of (cols df) ''time_position'' = Some tp
           \<longrightarrow> (\<exists>tp'. to_datetime_s L tp = Inr tp')) \<and>
     (\<forall>lc. map_of (cols df) ''last_contact'' = Some lc
           \<longrightarrow> (\<exists>lc'. to_datetime_s L lc = Inr lc'))"
  (is "?lhs \<longleftrightarrow> ?a \<and> ?b \<and> ?c \<and> ?d")
proof
  assume ?lhs
  then obtain df' out where t: "transform_chunk L df = Inr (df', out)" by auto
  from t show "?a \<and> ?b \<and> ?c \<and> ?d"
  proof (rule transform_chunk_steps)
    fix ps ps' tp tp' lc lc' og sp
    assume a: "\<forall>c\<in>set numeric_cols. map_of (cols df) c \<noteq> None"
      "map_of (cols df) ''position_source'' = Some ps"
      "to_nullable_int L ps = Inr ps'"
      "map_of (cols df) ''time_position'' = Some tp"
      "to_datetime_s L tp = Inr tp'"
      "map_of (cols df) ''last_contact'' = Some lc"
      "to_datetime_s L lc = Inr lc'"
      "map_of (cols df) ''on_ground'' = Some og"
      "map_of (cols df) ''spi'' = Some sp"
    have ?a using a(1,2,4,6,8,9) by auto
    moreover have ?b using a(2,3) by auto
    moreover have ?c using a(4,5) by auto
    moreover have ?d using a(6,7) by auto
    ultimately show ?thesis by blast
  qed
next
  assume h: "?a \<and> ?b \<and> ?c \<and> ?d"
  note a = h[THEN conjunct1] and b = h[THEN conjunct2, THEN conjunct1]
    and c = h[THEN conjunct2, THEN conjunct2, THEN conjunct1]
    and d = h[THEN conjunct2, THEN conjunct2, THEN conjunct2]
  have "map_of (cols df) ''position_source'' \<noteq> None" by (rule a[THEN bspec]) simp
  then obtain ps where ps: "map_of (cols df) ''position_source'' = Some ps" by blast
  have "map_of (cols df) ''time_position'' \<noteq> None" by (rule a[THEN bspec]) simp
  then obtain tp where tp: "map_of (cols df) ''time_position'' = Some tp" by blast
  have "map_of (cols df) ''last_contact'' \<noteq> None" by (rule a[THEN bspec]) simp
  then obtain lc where lc: "map_of (cols df) ''last_contact'' = Some lc" by blast
  from b[rule_format, OF ps] obtain ps' where ps': "to_nullable_int L ps = Inr ps'" by blast
  from c[rule_format, OF tp] obtain tp' where tp': "to_datetime_s L tp = Inr tp'" by blast
  from d[rule_format, OF lc] obtain lc' where lc': "to_datetime_s L lc = Inr lc'" by blast
  have k: "\<forall>c\<in>set numeric_cols. map_of (cols df) c \<noteq> None"
  proof
    fix c assume "c \<in> set numeric_cols"
    then show "map_of (cols df) c \<noteq> None" by (intro a[THEN bspec]) simp
  qed
  have og: "map_of (cols df) ''on_ground'' \<noteq> None" by (rule a[THEN bspec]) simp
  have sp: "map_of (cols df) ''spi'' \<noteq> None" by (rule a[THEN bspec]) simp
  show ?lhs by (rule transform_chunk_total[OF k ps ps' tp tp' lc lc' og sp])
qed


text \<open>The example chunk, evaluated.\<close>

lemma lower_literals:
  "lower ''True'' = ''true''" "lower ''False'' = ''false''" "lower ''TRUE'' = ''true''"
  "lower ''nan'' = ''nan''" "lower ''yes'' = ''yes''" "lower ''false'' = ''false''"
  "lower ''0'' = ''0''"
  by code_simp+

lemma nif: "\<not> int64_float (3 / 2)" by code_simp

lemmas transform_eval =
  transform_chunk_def numeric_cols_def apply_col_def get_col_def set_col_def apply_col_exn_def
  to_nullable_int_def astype_Int64_def to_numeric_def to_datetime_s_def dtype_of_def
  float_of_int_def in_int64_def in_uint64_def select_cols_def final_columns_def coerce_bool_def
  map_bool_map_def bool_map_def lower_literals example_lib_def epoch_seconds_def Let_def nif

lemmas conversion_eval =
  to_nullable_int_def astype_Int64_def to_numeric_def to_datetime_s_def dtype_of_def
  in_int64_def in_uint64_def float_of_int_def Let_def

lemma transform_example:
  "transform_chunk example_lib example_chunk = Inr (example_mutated, example_clean)"
  by code_simp


text \<open>
  The file of three rows has the ten converted columns under distinct names, and none
  of its conversions raises.
\<close>

lemma three_row_file_convertible:
  "distinct (map fst (cols three_row_file)) \<and>
    (\<forall>c\<in>set numeric_cols \<union> {''position_source'', ''time_position'', ''last_contact'',
                               ''on_ground'', ''spi''}. map_of (cols three_row_file) c \<noteq> None) \<and>
    (\<forall>ps. map_of (cols three_row_file) ''position_source'' = Some ps
           \<longrightarrow> (\<exists>ps'. to_nullable_int L ps = Inr ps')) \<and>
    (\<forall>tp. map_of (cols three_row_file) ''time_position'' = Some tp
           \<longrightarrow> (\<exists>tp'. to_datetime_s L tp = Inr tp')) \<and>
    (\<forall>lc. map_of (cols three_row_file) ''last_contact'' = Some lc
           \<longrightarrow> (\<exists>lc'. to_datetime_s L lc = Inr lc'))"
  by (simp add: three_row_file_def numeric_cols_def conversion_eval)

lemma three_row_file_returns: "\<exists>r. transform_chunk L three_row_file = Inr r"
  unfolding transform_chunk_returns_iff by (rule three_row_file_convertible[THEN conjunct2])



lemma coerce_bool_cases:
  "(coerce_bool L v = CBool True \<longleftrightarrow> lower (astype_str L v) = ''true'') \<and>
   (coerce_bool L v = CBool False \<longleftrightarrow> lower (astype_str L v) = ''false'') \<and>
   (coerce_bool L v = CNull \<longleftrightarrow>
      lower (astype_str L v) \<noteq> ''true'' \<and> lower (astype_str L v) \<noteq> ''false'')"
  by (simp add: coerce_bool_def map_bool_map_def bool_map_def)

text \<open>
  Claim C5. \<open>on_ground\<close> and \<open>spi\<close> of the result are the input columns with every value
  replaced by \<open>coerce_bool\<close> of it. That is \<open>True\<close> exactly when the lower-cased string
  form of the value is \<open>true\<close>, \<open>False\<close> exactly when it is \<open>false\<close>, and missing in every
  other case: a value that is neither is never turned into \<open>False\<close>. There is such a
  result for every chunk with distinct column names that has the ten converted columns
  and whose other conversions do not raise.
\<close>

theorem transform_chunk_booleans:
  "(coerce_bool L v = CBool True \<longleftrightarrow> lower (astype_str L v) = ''true'') \<and>
   (coerce_bool L v = CBool False \<longleftrightarrow> lower (astype_str L v) = ''false'') \<and>
   (coerce_bool L v = CNull \<longleftrightarrow>
      lower (astype_str L v) \<noteq> ''true'' \<and> lower (astype_str L v) \<noteq> ''false'') \<and>
   (transform_chunk L df = Inr (df', out) \<longrightarrow>
      (\<exists>og sp. map_of (cols df) ''on_ground'' = Some og \<and>
               map_of (cols out) ''on_ground'' = Some (map (coerce_bool L) og) \<and>
               map_of (cols df) ''spi'' = Some sp \<and>
               map_of (cols out) ''spi'' = Some (map (coerce_bool L) sp))) \<and>
   (distinct (map fst (cols df)) \<and>
    (\<forall>c\<in>set numeric_cols \<union> {''position_source'', ''time_position'', ''last_contact'',
                               ''on_ground'', ''spi''}. map_of (cols df) c \<noteq> None) \<and>
    (\<forall>ps. map_of (cols df) ''position_source'' = Some ps
           \<longrightarrow> (\<exists>ps'. to_nullable_int L ps = Inr ps')) \<and>
    (\<forall>tp. map_of (cols df) ''time_position'' = Some tp
           \<longrightarrow> (\<exists>tp'. to_datetime_s L tp = Inr tp')) \<and>
    (\<forall>lc. map_of (cols df) ''last_contact'' = Some lc
           \<longrightarrow> (\<exists>lc'. to_datetime_s L lc = Inr lc'))
    \<longrightarrow> (\<exists>r og sp. transform_chunk L df = Inr r \<and>
               map_of (cols df) ''on_ground'' = Some og \<and>
               map_of (cols (snd r)) ''on_ground'' = Some (map (coerce_bool L) og) \<and>
               map_of (cols df) ''spi'' = Some sp \<and>
               map_of (cols (snd r)) ''spi'' = Some (map (coerce_bool L) sp)))"
proof -
  have cond: "\<exists>og sp. map_of (cols df) ''on_ground'' = Some og \<and>
               map_of (cols out) ''on_ground'' = Some (map (coerce_bool L) og) \<and>
               map_of (cols df) ''spi'' = Some sp \<and>
               map_of (cols out) ''spi'' = Some (map (coerce_bool L) sp)"
    if t: "transform_chunk L df = Inr (df', out)" for df' out
    using t
  proof (rule transform_chunk_steps)
    fix ps ps' tp tp' lc lc' og sp
    assume a: "map_of (cols df) ''on_ground'' = Some og" "map_of (cols df) ''spi'' = Some sp"
      "\<forall>c\<in>set final_columns. map_of (cols out) c = map_of (cols df') c"
      and mm: "map_of (cols df') =
       (\<lambda>c. if c = ''spi'' then Some (map (coerce_bool L) sp)
            else if c = ''on_ground'' then Some (map (coerce_bool L) og)
            else if c = ''last_contact'' then Some lc'
            else if c = ''time_position'' then Some tp'
            else if c = ''position_source'' then Some ps'
            else if c \<in> set numeric_cols then map_option (to_numeric L) (map_of (cols df) c)
            else if c \<in> set final_columns \<and> map_of (cols df) c = None
                 then Some (replicate (nrows df) CNull)
            else map_of (cols df) c)"
    have "map_of (cols out) ''on_ground'' = map_of (cols df') ''on_ground''"
         "map_of (cols out) ''spi'' = map_of (cols df') ''spi''"
      using a(3) by (simp_all add: final_columns_def)
    then show ?thesis using a(1,2) by (simp add: mm)
  qed
  have tot: "\<exists>r og sp. transform_chunk L df = Inr r \<and>
               map_of (cols df) ''on_ground'' = Some og \<and>
               map_of (cols (snd r)) ''on_ground'' = Some (map (coerce_bool L) og) \<and>
               map_of (cols df) ''spi'' = Some sp \<and>
               map_of (cols (snd r)) ''spi'' = Some (map (coerce_bool L) sp)"
    if h: "distinct (map fst (cols df)) \<and>
    (\<forall>c\<in>set numeric_cols \<union> {''position_source'', ''time_position'', ''last_contact'',
                               ''on_ground'', ''spi''}. map_of (cols df) c \<noteq> None) \<and>
    (\<forall>ps. map_of (cols df) ''position_source'' = Some ps
           \<longrightarrow> (\<exists>ps'. to_nullable_int L ps = Inr ps')) \<and>
    (\<forall>tp. map_of (cols df) ''time_position'' = Some tp
           \<longrightarrow> (\<exists>tp'. to_datetime_s L tp = Inr tp')) \<and>
    (\<forall>lc. map_of (cols df) ''last_contact'' = Some lc
           \<longrightarrow> (\<exists>lc'. to_datetime_s L lc = Inr lc'))"
  proof -
    have "\<exists>r. transform_chunk L df = Inr r"
      unfolding transform_chunk_returns_iff by (rule h[THEN conjunct2])
    then obtain d o' where t: "transform_chunk L df = Inr (d, o')" by auto
    from cond[OF t] t show ?thesis by auto
  qed
  show ?thesis
    using cond tot coerce_bool_cases[of L v] by (intro conjI impI) blast+
qed

lemma boolean_chunk_convertible:
  "distinct (map fst (cols boolean_chunk)) \<and>
    (\<forall>c\<in>set numeric_cols \<union> {''position_source'', ''time_position'', ''last_contact'',
                               ''on_ground'', ''spi''}. map_of (cols boolean_chunk) c \<noteq> None) \<and>
    (\<forall>ps. map_of (cols boolean_chunk) ''position_source'' = Some ps
           \<longrightarrow> (\<exists>ps'. to_nullable_int L ps = Inr ps')) \<and>
    (\<forall>tp. map_of (cols boolean_chunk) ''time_position'' = Some tp
           \<longrightarrow> (\<exists>tp'. to_datetime_s L tp = Inr tp')) \<and>
    (\<forall>lc. map_of (cols boolean_chunk) ''last_contact'' = Some lc
           \<longrightarrow> (\<exists>lc'. to_datetime_s L lc = Inr lc'))"
  by (simp add: boolean_chunk_def set_col_def three_row_file_def numeric_cols_def conversion_eval)

text \<open>
  The example chunk, and the three rows with their mixed values: \<open>TRUE\<close> and \<open>false\<close> are
  read whatever their case, and the word, the missing value and the number become
  missing, not \<open>False\<close>.
\<close>

theorem transform_chunk_booleans_witness:
  "transform_chunk example_lib example_chunk = Inr (example_mutated, example_clean) \<and>
   map_of (cols example_chunk) ''on_ground'' = Some [CStr ''TRUE''] \<and>
   map_of (cols example_clean) ''on_ground'' = Some [CBool True] \<and>
   map_of (cols example_chunk) ''spi'' = Some [CBool False] \<and>
   map_of (cols example_clean) ''spi'' = Some [CBool False] \<and>
   map_of (cols boolean_chunk) ''on_ground'' = Some [CStr ''TRUE'', CStr ''yes'', CNull] \<and>
   map_of (cols boolean_chunk) ''spi'' = Some [CStr ''false'', CBool True, CNum (NInt 0)] \<and>
   (\<exists>df' out. transform_chunk example_lib boolean_chunk = Inr (df', out) \<and>
       map_of (cols out) ''on_ground'' = Some [CBool True, CNull, CNull] \<and>
       map_of (cols out) ''spi'' = Some [CBool False, CBool True, CNull])"
proof -
  note r = transform_example
  from transform_chunk_booleans[of example_lib CNull example_chunk example_mutated example_clean,
      THEN conjunct2, THEN conjunct2, THEN conjunct2, THEN conjunct1] r
  have e: "\<exists>og sp. map_of (cols example_chunk) ''on_ground'' = Some og \<and>
       map_of (cols example_clean) ''on_ground'' = Some (map (coerce_bool example_lib) og) \<and>
       map_of (cols example_chunk) ''spi'' = Some sp \<and>
       map_of (cols example_clean) ''spi'' = Some (map (coerce_bool example_lib) sp)"
    by blast
  have c: "map_of (cols example_chunk) ''on_ground'' = Some [CStr ''TRUE'']"
          "map_of (cols example_chunk) ''spi'' = Some [CBool False]"
    by (simp_all add: example_chunk_def)
  have v: "map (coerce_bool example_lib) [CStr ''TRUE''] = [CBool True]"
          "map (coerce_bool example_lib) [CBool False] = [CBool False]"
          "map (coerce_bool example_lib) [CStr ''TRUE'', CStr ''yes'', CNull]
             = [CBool True, CNull, CNull]"
          "map (coerce_bool example_lib) [CStr ''false'', CBool True, CNum (NInt 0)]
             = [CBool False, CBool True, CNull]"
    by (simp_all add: coerce_bool_def map_bool_map_def bool_map_def lower_literals example_lib_def)
  from e c v have e': "map_of (cols example_clean) ''on_ground'' = Some [CBool True]"
          "map_of (cols example_clean) ''spi'' = Some [CBool False]"
    by auto
  have b: "map_of (cols boolean_chunk) ''on_ground'' = Some [CStr ''TRUE'', CStr ''yes'', CNull]"
          "map_of (cols boolean_chunk) ''spi'' = Some [CStr ''false'', CBool True, CNum (NInt 0)]"
    by (simp_all add: boolean_chunk_def map_of_set_col)
  from transform_chunk_booleans[of example_lib CNull boolean_chunk,
      THEN conjunct2, THEN conjunct2, THEN conjunct2, THEN conjunct2, rule_format,
      OF boolean_chunk_convertible[of example_lib]]
  obtain x og sp where t: "transform_chunk example_lib boolean_chunk = Inr x"
    and k: "map_of (cols boolean_chunk) ''on_ground'' = Some og"
       "map_of (cols (snd x)) ''on_ground'' = Some (map (coerce_bool example_lib) og)"
       "map_of (cols boolean_chunk) ''spi'' = Some sp"
       "map_of (cols (snd x)) ''spi'' = Some (map (coerce_bool example_lib) sp)"
    by blast
  from k b v have "map_of (cols (snd x)) ''on_ground'' = Some [CBool True, CNull, CNull] \<and>
       map_of (cols (snd x)) ''spi'' = Some [CBool False, CBool True, CNull]"
    by auto
  with t have g: "\<exists>df' out. transform_chunk example_lib boolean_chunk = Inr (df', out) \<and>
       map_of (cols out) ''on_ground'' = Some [CBool True, CNull, CNull] \<and>
       map_of (cols out) ''spi'' = Some [CBool False, CBool True, CNull]"
    by (cases x) auto
  show ?thesis using r c e' b g by (intro conjI)
qed

text \<open>
  Claim C4. The claim is that \<open>transform_chunk\<close> turns \<open>position_source\<close> into a nullable
  integer for every input chunk and never raises. It does raise: on a chunk of one row
  that has all seventeen raw columns and whose \<open>position_source\<close> is the float 1.5,
  \<open>pd.to_numeric\<close> keeps the 1.5 and \<open>.astype('Int64')\<close> raises \<open>TypeError\<close>, whatever the
  library reads and prints. No frame is returned.
\<close>

theorem transform_chunk_fractional_position_source_raises:
  "\<forall>L. map_of (cols fractional_chunk) ''position_source'' = Some [CNum (NFloat (3 / 2))] \<and>
       to_numeric L [CNum (NFloat (3 / 2))] = [CNum (NFloat (3 / 2))] \<and>
       transform_chunk L fractional_chunk =
         Inl (TypeError ''cannot safely cast non-equivalent float64 to int64'')"
proof
  fix L
  have a: "map_of (cols fractional_chunk) ''position_source'' = Some [CNum (NFloat (3 / 2))]"
    by (simp add: fractional_chunk_def)
  have b: "to_numeric L [CNum (NFloat (3 / 2))] = [CNum (NFloat (3 / 2))]"
    by (simp add: to_numeric_def dtype_of_def)
  have c: "transform_chunk L fractional_chunk =
         Inl (TypeError ''cannot safely cast non-equivalent float64 to int64'')"
    by code_simp
  show "map_of (cols fractional_chunk) ''position_source'' = Some [CNum (NFloat (3 / 2))] \<and>
       to_numeric L [CNum (NFloat (3 / 2))] = [CNum (NFloat (3 / 2))] \<and>
       transform_chunk L fractional_chunk =
         Inl (TypeError ''cannot safely cast non-equivalent float64 to int64'')"
    using a b c by (intro conjI)
qed

section \<open>Properties of processing one file\<close>

lemma to_sql_frame:
  "to_sql w df = (w1, r) \<Longrightarrow>
   clean_data_dir w1 = clean_data_dir w \<and> raw_data_dir w1 = raw_data_dir w \<and>
   file_log w1 = file_log w \<and> db_faults w1 = db_faults w \<and> clock w1 = clock w"
  by (auto simp: to_sql_def split: list.splits option.splits)


lemma to_csv_content:
  "map_of (clean_data_dir (to_csv w name df h)) name =
     Some ((case map_of (clean_data_dir w) name of None \<Rightarrow> [] | Some ls \<Rightarrow> ls) @ csv_lines h df)"
  by (simp add: to_csv_def update_conv')

lemma remove_if_exists_frame:
  "raw_data_dir (remove_if_exists w name) = raw_data_dir w \<and>
   file_log (remove_if_exists w name) = file_log w \<and>
   db_faults (remove_if_exists w name) = db_faults w \<and>
   clock (remove_if_exists w name) = clock w \<and>
   staging_faults (remove_if_exists w name) = staging_faults w"
  by (simp add: remove_if_exists_def)

lemma remove_if_exists_gone:
  "map_of (clean_data_dir (remove_if_exists w name)) name = None"
proof (cases "name \<in> set (map fst (clean_data_dir w))")
  case True
  then show ?thesis by (simp add: remove_if_exists_def delete_conv')
next
  case False
  then have "map_of (clean_data_dir w) name = None" by (simp add: map_of_eq_None_iff)
  then show ?thesis using False by (simp add: remove_if_exists_def)
qed

lemma nrows_stamped:
  "nrows (set_col (set_col chunk a xs) b ys) = nrows chunk"
  by (simp add: set_col_def)

text \<open>
  What the loop leaves behind, however it ends: \<open>k\<close> records under the header, where
  \<open>k\<close> counts the rows of the chunks written so far.
\<close>

lemma process_chunks_result:
  assumes "process_chunks L f chunks w tot first = (w', r)"
    and "\<forall>c\<in>set chunks. cols c \<noteq> []"
    and "first \<longrightarrow> tot = 0 \<and> map_of (clean_data_dir w) (clean_name f) = None"
    and "\<not> first \<longrightarrow> (\<exists>rows. map_of (clean_data_dir w) (clean_name f)
                           = Some (Header final_columns # map Row rows) \<and> length rows = tot)"
  shows "\<exists>k. tot \<le> k \<and> k \<le> tot + sum_list (map nrows chunks) \<and>
           (\<forall>t. r = Inr t \<longrightarrow> t = k \<and> k = tot + sum_list (map nrows chunks)) \<and>
           (if first \<and> k = 0
            then map_of (clean_data_dir w') (clean_name f) = None
            else \<exists>rows. map_of (clean_data_dir w') (clean_name f)
                    = Some (Header final_columns # map Row rows) \<and> length rows = k)"
  using assms
proof (induction chunks arbitrary: w tot first)
  case Nil
  then have "w' = w" "r = Inr tot" by auto
  then show ?case using Nil.prems(3,4) by (intro exI[of _ tot]) auto
next
  case (Cons chunk rest)
  have rc: "\<forall>c\<in>set rest. cols c \<noteq> []" using Cons.prems(2) by simp
  show ?case
  proof (cases "empty_frame chunk")
    case True
    then have z: "nrows chunk = 0" using Cons.prems(2) by (simp add: empty_frame_def)
    have p: "process_chunks L f rest w tot first = (w', r)"
      using Cons.prems(1) True by simp
    have e: "sum_list (map nrows (chunk # rest)) = sum_list (map nrows rest)" using z by simp
    from Cons.IH[OF p rc Cons.prems(3) Cons.prems(4)] show ?thesis unfolding e .
  next
    case False
    then have pos: "0 < nrows chunk" by (simp add: empty_frame_def)
    define stamped where "stamped =
      set_col (set_col chunk ''load_timestamp'' (replicate (nrows chunk) (CTime (clock w))))
        ''file_source'' (replicate (nrows chunk) (CStr f))"
    have ns: "nrows stamped = nrows chunk" by (simp add: stamped_def nrows_stamped)
    have step: "process_chunks L f (chunk # rest) w tot first =
       (case to_sql w stamped of
             (w1, Some e) \<Rightarrow> (w1, Inl e)
           | (w1, None) \<Rightarrow>
               (case transform_chunk L stamped of
                  Inl e \<Rightarrow> (w1, Inl e)
                | Inr (chunk', clean_chunk) \<Rightarrow>
                    process_chunks L f rest
                      (to_csv w1 (clean_name f) clean_chunk first)
                      (tot + nrows chunk') False))"
      unfolding stamped_def using False by (simp add: Let_def)
    obtain w1 r1 where s: "to_sql w stamped = (w1, r1)" by (cases "to_sql w stamped")
    have c1: "clean_data_dir w1 = clean_data_dir w" using to_sql_frame[OF s] by simp
    have stop: ?thesis if w: "w' = w1" and e: "\<exists>e. r = Inl e"
    proof (intro exI[of _ tot] conjI)
      show "tot \<le> tot" "tot \<le> tot + sum_list (map nrows (chunk # rest))" by simp_all
      show "\<forall>t. r = Inr t \<longrightarrow> t = tot \<and> tot = tot + sum_list (map nrows (chunk # rest))"
        using e by auto
      show "if first \<and> tot = 0
            then map_of (clean_data_dir w') (clean_name f) = None
            else \<exists>rows. map_of (clean_data_dir w') (clean_name f)
                    = Some (Header final_columns # map Row rows) \<and> length rows = tot"
        using Cons.prems(3,4) by (cases first) (auto simp: w c1)
    qed
    show ?thesis
    proof (cases r1)
      case (Some e)
      then have "w' = w1" "r = Inl e" using Cons.prems(1) s unfolding step by simp_all
      then show ?thesis by (intro stop) auto
    next
      case None
      show ?thesis
      proof (cases "transform_chunk L stamped")
        case (Inl e)
        then have "w' = w1" "r = Inl e" using Cons.prems(1) s None unfolding step by simp_all
        then show ?thesis by (intro stop) auto
      next
        case (Inr pr)
        obtain chunk' clean where pr: "pr = (chunk', clean)" by (cases pr)
        have tc: "transform_chunk L stamped = Inr (chunk', clean)" using Inr pr by simp
        have p: "process_chunks L f rest (to_csv w1 (clean_name f) clean first)
                   (tot + nrows chunk') False = (w', r)"
          using Cons.prems(1) s None tc unfolding step by simp
        from tc have n1: "nrows clean = nrows stamped" by (rule transform_chunk_steps)
        from tc have n2: "nrows chunk' = nrows stamped" by (rule transform_chunk_steps)
        from tc have n3: "map fst (cols clean) = final_columns" by (rule transform_chunk_steps)
        have n: "nrows clean = nrows chunk" "nrows chunk' = nrows chunk"
             "map fst (cols clean) = final_columns" "length (frame_rows clean) = nrows chunk"
          using ns n1 n2 n3 by (simp_all add: frame_rows_def)
        have inv: "\<exists>rows. map_of (clean_data_dir (to_csv w1 (clean_name f) clean first)) (clean_name f)
                      = Some (Header final_columns # map Row rows) \<and> length rows = tot + nrows chunk'"
        proof (cases first)
          case True
          then have a: "map_of (clean_data_dir w) (clean_name f) = None" "tot = 0"
            using Cons.prems(3) by auto
          have "map_of (clean_data_dir (to_csv w1 (clean_name f) clean first)) (clean_name f)
                      = Some (Header final_columns # map Row (frame_rows clean))"
            using True a(1) n(3) by (simp add: to_csv_content c1 csv_lines_def)
          moreover have "length (frame_rows clean) = tot + nrows chunk'" using a(2) n by simp
          ultimately show ?thesis by blast
        next
          case False
          then obtain rows where rows: "map_of (clean_data_dir w) (clean_name f)
                               = Some (Header final_columns # map Row rows)" "length rows = tot"
            using Cons.prems(4) by auto
          have "map_of (clean_data_dir (to_csv w1 (clean_name f) clean first)) (clean_name f)
                      = Some (Header final_columns # map Row (rows @ frame_rows clean))"
            using False rows(1) by (simp add: to_csv_content c1 csv_lines_def)
          moreover have "length (rows @ frame_rows clean) = tot + nrows chunk'" using rows(2) n by simp
          ultimately show ?thesis by blast
        qed
        have i1: "False \<longrightarrow> tot + nrows chunk' = 0 \<and>
            map_of (clean_data_dir (to_csv w1 (clean_name f) clean first)) (clean_name f) = None"
          by simp
        have i2: "\<not> False \<longrightarrow> (\<exists>rows. map_of (clean_data_dir (to_csv w1 (clean_name f) clean first)) (clean_name f)
                      = Some (Header final_columns # map Row rows) \<and> length rows = tot + nrows chunk')"
          using inv by simp
        from Cons.IH[OF p rc i1 i2] obtain k where
          k: "tot + nrows chunk' \<le> k" "k \<le> tot + nrows chunk' + sum_list (map nrows rest)"
             "\<forall>t. r = Inr t \<longrightarrow> t = k \<and> k = tot + nrows chunk' + sum_list (map nrows rest)"
             "\<exists>rows. map_of (clean_data_dir w') (clean_name f)
                      = Some (Header final_columns # map Row rows) \<and> length rows = k"
          by auto
        have k0: "k \<noteq> 0" using k(1) n(2) pos by simp
        show ?thesis
        proof (intro exI[of _ k] conjI)
          show "tot \<le> k" using k(1) by simp
          show "k \<le> tot + sum_list (map nrows (chunk # rest))" using k(2) n(2) by simp
          show "\<forall>t. r = Inr t \<longrightarrow> t = k \<and> k = tot + sum_list (map nrows (chunk # rest))"
          proof (intro allI impI)
            fix t assume t: "r = Inr t"
            note kt = k(3)[rule_format, OF t]
            have "k = tot + sum_list (map nrows (chunk # rest))"
              using kt[THEN conjunct2] n(2) by simp
            with kt[THEN conjunct1]
            show "t = k \<and> k = tot + sum_list (map nrows (chunk # rest))" by (intro conjI)
          qed
          show "if first \<and> k = 0
            then map_of (clean_data_dir w') (clean_name f) = None
            else \<exists>rows. map_of (clean_data_dir w') (clean_name f)
                    = Some (Header final_columns # map Row rows) \<and> length rows = k"
            using k0 k(4) by simp
        qed
      qed
    qed
  qed
qed

lemma read_chunks_sum:
  "0 < n \<Longrightarrow> sum_list (map nrows (read_chunks n df)) = nrows df"
proof (induction n df rule: read_chunks.induct)
  case (1 n df)
  show ?case
  proof (cases "nrows df \<le> n")
    case True
    then show ?thesis by (subst read_chunks.simps) simp
  next
    case False
    then have "sum_list (map nrows (read_chunks n (drop_rows n df))) = nrows (drop_rows n df)"
      using 1 by simp
    then show ?thesis using False "1.prems"
      by (subst read_chunks.simps) (simp add: take_rows_def drop_rows_def)
  qed
qed

lemma read_chunks_cols:
  "cols df \<noteq> [] \<Longrightarrow> \<forall>c\<in>set (read_chunks n df). cols c \<noteq> []"
proof (induction n df rule: read_chunks.induct)
  case (1 n df)
  show ?case
  proof (cases "n = 0 \<or> nrows df \<le> n")
    case True
    then show ?thesis using "1.prems" by (subst read_chunks.simps) simp
  next
    case False
    have "cols (drop_rows n df) \<noteq> []" using "1.prems" by (simp add: drop_rows_def)
    with 1 False have "\<forall>c\<in>set (read_chunks n (drop_rows n df)). cols c \<noteq> []" by simp
    then show ?thesis using False "1.prems"
      by (subst read_chunks.simps) (simp add: take_rows_def)
  qed
qed

lemma transform_returns_stamped:
  assumes "\<exists>r. transform_chunk L df = Inr r"
  shows "\<exists>r. transform_chunk L
            (set_col (set_col df ''load_timestamp'' xs) ''file_source'' ys) = Inr r"
proof -
  have m: "\<And>c. c \<noteq> ''load_timestamp'' \<Longrightarrow> c \<noteq> ''file_source'' \<Longrightarrow>
      map_of (cols (set_col (set_col df ''load_timestamp'' xs) ''file_source'' ys)) c
        = map_of (cols df) c"
    by (simp add: map_of_set_col)
  have m10: "\<And>c. c \<in> set numeric_cols \<union> {''position_source'', ''time_position'',
                    ''last_contact'', ''on_ground'', ''spi''} \<Longrightarrow>
      map_of (cols (set_col (set_col df ''load_timestamp'' xs) ''file_source'' ys)) c
        = map_of (cols df) c"
    by (rule m) (auto simp: numeric_cols_def)
  have h: "(\<forall>c\<in>set numeric_cols \<union> {''position_source'', ''time_position'', ''last_contact'',
                               ''on_ground'', ''spi''}. map_of (cols df) c \<noteq> None) \<and>
     (\<forall>ps. map_of (cols df) ''position_source'' = Some ps
           \<longrightarrow> (\<exists>ps'. to_nullable_int L ps = Inr ps')) \<and>
     (\<forall>tp. map_of (cols df) ''time_position'' = Some tp
           \<longrightarrow> (\<exists>tp'. to_datetime_s L tp = Inr tp')) \<and>
     (\<forall>lc. map_of (cols df) ''last_contact'' = Some lc
           \<longrightarrow> (\<exists>lc'. to_datetime_s L lc = Inr lc'))"
    using assms unfolding transform_chunk_returns_iff .
  note a = h[THEN conjunct1] and b = h[THEN conjunct2, THEN conjunct1]
    and c = h[THEN conjunct2, THEN conjunct2, THEN conjunct1]
    and d = h[THEN conjunct2, THEN conjunct2, THEN conjunct2]
  show ?thesis unfolding transform_chunk_returns_iff
  proof (intro conjI ballI)
    fix c assume c: "c \<in> set numeric_cols \<union> {''position_source'', ''time_position'',
                    ''last_contact'', ''on_ground'', ''spi''}"
    show "map_of (cols (set_col (set_col df ''load_timestamp'' xs) ''file_source'' ys)) c \<noteq> None"
      unfolding m10[OF c] by (rule a[THEN bspec, OF c])
  next
    show "\<forall>ps. map_of (cols (set_col (set_col df ''load_timestamp'' xs) ''file_source'' ys))
                 ''position_source'' = Some ps \<longrightarrow> (\<exists>ps'. to_nullable_int L ps = Inr ps')"
      using b by (simp add: m)
    show "\<forall>tp. map_of (cols (set_col (set_col df ''load_timestamp'' xs) ''file_source'' ys))
                 ''time_position'' = Some tp \<longrightarrow> (\<exists>tp'. to_datetime_s L tp = Inr tp')"
      using c by (simp add: m)
    show "\<forall>lc. map_of (cols (set_col (set_col df ''load_timestamp'' xs) ''file_source'' ys))
                 ''last_contact'' = Some lc \<longrightarrow> (\<exists>lc'. to_datetime_s L lc = Inr lc')"
      using d by (simp add: m)
  qed
qed

lemma process_chunks_returns:
  assumes "staging_faults w = []"
    and "\<forall>c\<in>set chunks. \<not> empty_frame c \<longrightarrow> (\<exists>r. transform_chunk L c = Inr r)"
  shows "\<exists>w' t. process_chunks L f chunks w tot first = (w', Inr t)"
  using assms
proof (induction chunks arbitrary: w tot first)
  case Nil
  then show ?case by simp
next
  case (Cons chunk rest)
  have rest: "\<forall>c\<in>set rest. \<not> empty_frame c \<longrightarrow> (\<exists>r. transform_chunk L c = Inr r)"
    using Cons.prems(2) by simp
  show ?case
  proof (cases "empty_frame chunk")
    case True
    then show ?thesis using Cons.IH[OF Cons.prems(1) rest] by simp
  next
    case False
    define stamped where "stamped =
      set_col (set_col chunk ''load_timestamp'' (replicate (nrows chunk) (CTime (clock w))))
        ''file_source'' (replicate (nrows chunk) (CStr f))"
    have step: "process_chunks L f (chunk # rest) w tot first =
       (case to_sql w stamped of
             (w1, Some e) \<Rightarrow> (w1, Inl e)
           | (w1, None) \<Rightarrow>
               (case transform_chunk L stamped of
                  Inl e \<Rightarrow> (w1, Inl e)
                | Inr (chunk', clean_chunk) \<Rightarrow>
                    process_chunks L f rest
                      (to_csv w1 (clean_name f) clean_chunk first)
                      (tot + nrows chunk') False))"
      unfolding stamped_def using False by (simp add: Let_def)
    have s: "to_sql w stamped = (w\<lparr>raw_flight_states := raw_flight_states w @ frame_records stamped\<rparr>, None)"
      using Cons.prems(1) by (simp add: to_sql_def)
    from Cons.prems(2) False have "\<exists>r. transform_chunk L chunk = Inr r" by simp
    from transform_returns_stamped[OF this] obtain chunk' clean where
      tc: "transform_chunk L stamped = Inr (chunk', clean)" unfolding stamped_def by fastforce
    have "staging_faults (to_csv (w\<lparr>raw_flight_states := raw_flight_states w @ frame_records stamped\<rparr>)
             (clean_name f) clean first) = []"
      using Cons.prems(1) by (simp add: to_csv_def)
    from Cons.IH[OF this rest] show ?thesis unfolding step s tc by simp
  qed
qed

text \<open>
  Claim C1, amended. \<open>process_single_file\<close> is the chunked run with chunks of 100000
  rows. Whatever the cleaned file of an earlier run held, it is gone after the call, also
  when the raw file cannot be read and the call raises at once. For a raw file that is
  in the raw-data directory, with at least one column, and a positive chunk size: however
  the run ends, the cleaned file holds nothing but this run's output, which is no file at
  all as long as no row was written, and else one header record with the nineteen final
  columns followed by the \<open>k\<close> rows written, \<open>k\<close> at most the number of rows of the raw
  file; when the run returns, it returns the number of data rows of the file, and \<open>k\<close> is
  that number. The run returns when the staging table takes every chunk and
  \<open>transform_chunk\<close> accepts every chunk that has rows.
\<close>

theorem process_single_file_rows_and_output:
  "process_single_file L f w = process_file_chunked L 100000 f w \<and>
   (read_csv w f n = Inl e \<longrightarrow>
      process_file_chunked L n f w = (remove_if_exists w (clean_name f), Inl e) \<and>
      map_of (clean_data_dir (remove_if_exists w (clean_name f))) (clean_name f) = None) \<and>
   (raw_data_dir w = Some d \<and> map_of d f = Some df \<and> cols df \<noteq> [] \<and> 0 < n \<longrightarrow>
      (process_file_chunked L n f w = (w', r) \<longrightarrow>
         (\<exists>k\<le>nrows df.
            (if k = 0 then map_of (clean_data_dir w') (clean_name f) = None
             else \<exists>rows. map_of (clean_data_dir w') (clean_name f)
                     = Some (Header final_columns # map Row rows) \<and> length rows = k) \<and>
            (\<forall>t. r = Inr t \<longrightarrow> t = nrows df \<and> k = nrows df))) \<and>
      (staging_faults w = [] \<and>
       (\<forall>c\<in>set (read_chunks n df). \<not> empty_frame c \<longrightarrow> (\<exists>x. transform_chunk L c = Inr x))
         \<longrightarrow> (\<exists>w' t. process_file_chunked L n f w = (w', Inr t))))"
proof (intro conjI impI)
  show "process_single_file L f w = process_file_chunked L 100000 f w"
    by (simp add: process_single_file_def)
next
  let ?w0 = "remove_if_exists w (clean_name f)"
  assume "read_csv w f n = Inl e"
  then have "read_csv ?w0 f n = Inl e"
    using remove_if_exists_frame[of w "clean_name f"] by (simp add: read_csv_def)
  then show "process_file_chunked L n f w = (?w0, Inl e)"
    by (simp add: process_file_chunked_def Let_def)
  show "map_of (clean_data_dir ?w0) (clean_name f) = None" by (rule remove_if_exists_gone)
next
  let ?w0 = "remove_if_exists w (clean_name f)"
  assume h: "raw_data_dir w = Some d \<and> map_of d f = Some df \<and> cols df \<noteq> [] \<and> 0 < n"
  then have rd: "read_csv ?w0 f n = Inr (read_chunks n df)"
    using remove_if_exists_frame[of w "clean_name f"] by (simp add: read_csv_def)
  from h have c: "cols df \<noteq> []" and n: "0 < n" by simp_all
  assume r: "process_file_chunked L n f w = (w', r)"
  then have p: "process_chunks L f (read_chunks n df) ?w0 0 True = (w', r)"
    using rd by (simp add: process_file_chunked_def Let_def)
  from process_chunks_result[OF p read_chunks_cols[OF c]]
       remove_if_exists_gone[of w "clean_name f"] read_chunks_sum[OF n, of df]
  obtain k where k: "k \<le> nrows df"
    "\<forall>t. r = Inr t \<longrightarrow> t = k \<and> k = nrows df"
    "if k = 0 then map_of (clean_data_dir w') (clean_name f) = None
     else \<exists>rows. map_of (clean_data_dir w') (clean_name f)
             = Some (Header final_columns # map Row rows) \<and> length rows = k"
    by auto
  show "\<exists>k\<le>nrows df.
            (if k = 0 then map_of (clean_data_dir w') (clean_name f) = None
             else \<exists>rows. map_of (clean_data_dir w') (clean_name f)
                     = Some (Header final_columns # map Row rows) \<and> length rows = k) \<and>
            (\<forall>t. r = Inr t \<longrightarrow> t = nrows df \<and> k = nrows df)"
  proof (intro exI[of _ k] conjI)
    show "k \<le> nrows df" by (rule k(1))
    show "if k = 0 then map_of (clean_data_dir w') (clean_name f) = None
          else \<exists>rows. map_of (clean_data_dir w') (clean_name f)
                  = Some (Header final_columns # map Row rows) \<and> length rows = k"
      by (rule k(3))
    show "\<forall>t. r = Inr t \<longrightarrow> t = nrows df \<and> k = nrows df" using k(2) by auto
  qed
next
  let ?w0 = "remove_if_exists w (clean_name f)"
  assume h: "raw_data_dir w = Some d \<and> map_of d f = Some df \<and> cols df \<noteq> [] \<and> 0 < n"
  then have rd: "read_csv ?w0 f n = Inr (read_chunks n df)"
    using remove_if_exists_frame[of w "clean_name f"] by (simp add: read_csv_def)
  assume a: "staging_faults w = [] \<and>
       (\<forall>c\<in>set (read_chunks n df). \<not> empty_frame c \<longrightarrow> (\<exists>x. transform_chunk L c = Inr x))"
  then have s: "staging_faults ?w0 = []" using remove_if_exists_frame[of w "clean_name f"] by simp
  from process_chunks_returns[OF s a[THEN conjunct2], of f 0 True]
  show "\<exists>w' t. process_file_chunked L n f w = (w', Inr t)"
    using rd by (simp add: process_file_chunked_def Let_def)
qed

text \<open>Unfolding the loader on the example world.\<close>

lemmas loader_eval =
  process_single_file_def process_file_chunked_def remove_if_exists_def clean_name_def
  loader_world_def blank_world_def read_csv_def read_chunks.simps header_only_file_def
  empty_frame_def three_row_file_def delete_conv' Let_def
  transform_chunk_def numeric_cols_def apply_col_def get_col_def set_col_def apply_col_exn_def
  to_nullable_int_def astype_Int64_def to_numeric_def to_datetime_s_def dtype_of_def
  float_of_int_def in_int64_def in_uint64_def select_cols_def final_columns_def coerce_bool_def
  map_bool_map_def bool_map_def lower_literals example_lib_def epoch_seconds_def to_sql_def
  to_csv_def frame_records_def frame_rows_def csv_lines_def take_rows_def drop_rows_def
  fractional_chunk_def
  new_file_row_def run_one_file_def update_file_log_def db_execute_def set_file_row_def
  load_main_def list_csv_files_def startswith_def endswith_def discover_and_register_def
  get_processed_files_def register_new_files_def insert_file_name_def select_new_files_def

lemma three_row_chunks_return:
  "\<forall>c\<in>set (read_chunks 2 three_row_file). \<not> empty_frame c \<longrightarrow>
      (\<exists>x. transform_chunk L c = Inr x)"
  "\<forall>c\<in>set (read_chunks 100000 three_row_file). \<not> empty_frame c \<longrightarrow>
      (\<exists>x. transform_chunk L c = Inr x)"
proof -
  have r2: "read_chunks 2 three_row_file
              = [take_rows 2 three_row_file, drop_rows 2 three_row_file]"
    by (simp add: read_chunks.simps three_row_file_def take_rows_def drop_rows_def)
  have r1: "read_chunks 100000 three_row_file = [three_row_file]"
    by (simp add: read_chunks.simps three_row_file_def)
  have a: "\<exists>x. transform_chunk L (take_rows 2 three_row_file) = Inr x"
    unfolding transform_chunk_returns_iff
    by (simp add: take_rows_def three_row_file_def numeric_cols_def conversion_eval)
  have b: "\<exists>x. transform_chunk L (drop_rows 2 three_row_file) = Inr x"
    unfolding transform_chunk_returns_iff
    by (simp add: drop_rows_def three_row_file_def numeric_cols_def conversion_eval)
  show "\<forall>c\<in>set (read_chunks 2 three_row_file). \<not> empty_frame c \<longrightarrow>
      (\<exists>x. transform_chunk L c = Inr x)"
    unfolding r2 using a b by simp
  show "\<forall>c\<in>set (read_chunks 100000 three_row_file). \<not> empty_frame c \<longrightarrow>
      (\<exists>x. transform_chunk L c = Inr x)"
    unfolding r1 using three_row_file_returns[of L] by simp
qed

text \<open>
  Three rows read in chunks of two, and in one chunk of at most 100000: the run returns 3
  and leaves a cleaned file of one header and three rows in place of the stale one. A
  file that is not in the directory: the call raises and the stale cleaned file is gone.
\<close>

theorem process_single_file_rows_and_output_witness:
  "raw_data_dir loader_world
     = Some [(''states_eu_0.csv'', header_only_file), (''states_eu_1.csv'', fractional_chunk),
             (''states_eu_2.csv'', three_row_file)] \<and>
   nrows three_row_file = 3 \<and>
   map nrows (read_chunks 2 three_row_file) = [2, 1] \<and>
   map_of (clean_data_dir loader_world) (clean_name ''states_eu_2.csv'')
     = Some [Header [''icao24''], Row [CStr ''stale'']] \<and>
   (\<exists>w'. process_file_chunked example_lib 2 ''states_eu_2.csv'' loader_world = (w', Inr 3) \<and>
      (\<exists>rows. map_of (clean_data_dir w') (clean_name ''states_eu_2.csv'')
                = Some (Header final_columns # map Row rows) \<and> length rows = 3)) \<and>
   (\<exists>w'. process_single_file example_lib ''states_eu_2.csv'' loader_world = (w', Inr 3) \<and>
      (\<exists>rows. map_of (clean_data_dir w') (clean_name ''states_eu_2.csv'')
                = Some (Header final_columns # map Row rows) \<and> length rows = 3)) \<and>
   read_csv loader_world ''states_eu_3.csv'' 100000 = Inl (FileNotFoundError ''states_eu_3.csv'') \<and>
   snd (process_single_file example_lib ''states_eu_3.csv''
          (loader_world\<lparr>clean_data_dir :=
             [(''clean_states_eu_3.csv'', [Header [''icao24''], Row [CStr ''stale'']])]\<rparr>))
     = Inl (FileNotFoundError ''states_eu_3.csv'') \<and>
   map_of (clean_data_dir (fst (process_single_file example_lib ''states_eu_3.csv''
          (loader_world\<lparr>clean_data_dir :=
             [(''clean_states_eu_3.csv'', [Header [''icao24''], Row [CStr ''stale'']])]\<rparr>))))
       (clean_name ''states_eu_3.csv'') = None"
proof -
  have d: "raw_data_dir loader_world
     = Some [(''states_eu_0.csv'', header_only_file), (''states_eu_1.csv'', fractional_chunk),
             (''states_eu_2.csv'', three_row_file)]"
    by (simp add: loader_world_def blank_world_def)
  have m: "map_of [(''states_eu_0.csv'', header_only_file), (''states_eu_1.csv'', fractional_chunk),
             (''states_eu_2.csv'', three_row_file)] ''states_eu_2.csv'' = Some three_row_file"
    by simp
  have c: "cols three_row_file \<noteq> []" and n: "nrows three_row_file = 3"
    by (simp_all add: three_row_file_def)
  have s: "staging_faults loader_world = []" by (simp add: loader_world_def blank_world_def)
  have k: "map nrows (read_chunks 2 three_row_file) = [2, 1]"
    by (simp add: read_chunks.simps three_row_file_def take_rows_def drop_rows_def)
  have st: "map_of (clean_data_dir loader_world) (clean_name ''states_eu_2.csv'')
     = Some [Header [''icao24''], Row [CStr ''stale'']]"
    by (simp add: loader_world_def blank_world_def clean_name_def)
  have a: "\<exists>w'. process_file_chunked example_lib n ''states_eu_2.csv'' loader_world = (w', Inr 3) \<and>
      (\<exists>rows. map_of (clean_data_dir w') (clean_name ''states_eu_2.csv'')
                = Some (Header final_columns # map Row rows) \<and> length rows = 3)"
    if p: "0 < n" and t: "\<forall>c\<in>set (read_chunks n three_row_file). \<not> empty_frame c \<longrightarrow>
      (\<exists>x. transform_chunk example_lib c = Inr x)" for n
  proof -
    note th = process_single_file_rows_and_output[of example_lib "''states_eu_2.csv''"
        loader_world n _ _ three_row_file, THEN conjunct2, THEN conjunct2, rule_format]
    have h: "raw_data_dir loader_world
               = Some [(''states_eu_0.csv'', header_only_file),
                       (''states_eu_1.csv'', fractional_chunk),
                       (''states_eu_2.csv'', three_row_file)] \<and>
             map_of [(''states_eu_0.csv'', header_only_file),
                     (''states_eu_1.csv'', fractional_chunk),
                     (''states_eu_2.csv'', three_row_file)] ''states_eu_2.csv''
               = Some three_row_file \<and>
             cols three_row_file \<noteq> [] \<and> 0 < n"
      using d m c p by (intro conjI)
    from th[OF h, THEN conjunct2] s t obtain w' t' where
      r: "process_file_chunked example_lib n ''states_eu_2.csv'' loader_world = (w', Inr t')"
      by blast
    from th[OF h, THEN conjunct1, rule_format, OF r] obtain k where
      "k \<le> nrows three_row_file"
      "if k = 0 then map_of (clean_data_dir w') (clean_name ''states_eu_2.csv'') = None
       else \<exists>rows. map_of (clean_data_dir w') (clean_name ''states_eu_2.csv'')
                    = Some (Header final_columns # map Row rows) \<and> length rows = k"
      "t' = nrows three_row_file \<and> k = nrows three_row_file"
      by auto
    then have "t' = 3"
      "\<exists>rows. map_of (clean_data_dir w') (clean_name ''states_eu_2.csv'')
                = Some (Header final_columns # map Row rows) \<and> length rows = 3"
      using n by simp_all
    with r show ?thesis by blast
  qed
  have b: "process_single_file example_lib ''states_eu_2.csv'' loader_world
           = process_file_chunked example_lib 100000 ''states_eu_2.csv'' loader_world"
    by (simp add: process_single_file_def)
  let ?w = "loader_world\<lparr>clean_data_dir :=
             [(''clean_states_eu_3.csv'', [Header [''icao24''], Row [CStr ''stale'']])]\<rparr>"
  have e0: "read_csv loader_world ''states_eu_3.csv'' 100000
              = Inl (FileNotFoundError ''states_eu_3.csv'')"
    by (simp add: read_csv_def loader_world_def blank_world_def)
  have e: "read_csv ?w ''states_eu_3.csv'' 100000 = Inl (FileNotFoundError ''states_eu_3.csv'')"
    by (simp add: read_csv_def loader_world_def blank_world_def)
  note th3 = process_single_file_rows_and_output[of example_lib "''states_eu_3.csv''" ?w 100000
      "FileNotFoundError ''states_eu_3.csv''"]
  from th3[THEN conjunct1] th3[THEN conjunct2, THEN conjunct1, rule_format, OF e]
  have g: "snd (process_single_file example_lib ''states_eu_3.csv'' ?w)
             = Inl (FileNotFoundError ''states_eu_3.csv'')"
     "map_of (clean_data_dir (fst (process_single_file example_lib ''states_eu_3.csv'' ?w)))
        (clean_name ''states_eu_3.csv'') = None"
    by simp_all
  show ?thesis
    using d n k st a[OF _ three_row_chunks_return(1)[of example_lib]]
      a[OF _ three_row_chunks_return(2)[of example_lib]] e0 g
    unfolding b by simp
qed

text \<open>
  Against claim C1 as stated: for a raw file of a header and no rows the function
  returns 0, deletes the cleaned file of the earlier run and writes none, so there is no
  cleaned file with one header line.
\<close>

theorem process_single_file_header_only_leaves_no_file:
  "\<forall>L. map_of (the (raw_data_dir loader_world)) ''states_eu_0.csv'' = Some header_only_file \<and>
       nrows header_only_file = 0 \<and>
       map fst (cols header_only_file) = map fst (cols three_row_file) \<and>
       map_of (clean_data_dir loader_world) (clean_name ''states_eu_0.csv'')
         = Some [Header [''icao24''], Row [CStr ''stale'']] \<and>
       snd (process_single_file L ''states_eu_0.csv'' loader_world) = Inr 0 \<and>
       map_of (clean_data_dir (fst (process_single_file L ''states_eu_0.csv'' loader_world)))
         (clean_name ''states_eu_0.csv'') = None"
  by (simp add: loader_eval)

section \<open>Properties of the batch loop\<close>











section \<open>Properties of the extractor\<close>

text \<open>
  Claim C8, amended. \<open>get_access_token\<close> fails on the status of the reply exactly for the
  statuses 400 to 599, and then with the \<open>HTTPError\<close> of \<open>raise_for_status\<close> for that
  status, for 401 as for any other: for 401 it prints the hint about the credentials,
  for the others the error, and raises what it caught. For every other status, 3xx and
  1xx included, it goes on to the body and returns its \<open>access_token\<close>, or raises what
  reading the body raises. When there is no reply it raises the \<open>RequestException\<close> of
  the request and prints nothing.
\<close>

theorem get_access_token_http_errors:
  "(token_reply w = Inl m \<longrightarrow>
      get_access_token w token_url client_id client_secret = ([], Inl (RequestException m))) \<and>
   (token_reply w = Inr response \<and>
    400 \<le> status_code response \<and> status_code response < 600 \<longrightarrow>
      get_access_token w token_url client_id client_secret =
        (if status_code response = 401 then [TokenHint401]
         else [TokenHttpError (HTTPError (status_code response)
                                (http_error_message (status_code response)))],
         Inl (HTTPError (status_code response) (http_error_message (status_code response))))) \<and>
   (token_reply w = Inr response \<and>
    \<not> (400 \<le> status_code response \<and> status_code response < 600) \<longrightarrow>
      get_access_token w token_url client_id client_secret =
        ([], case body response of
               None \<Rightarrow> Inl (JSONDecodeError ''Expecting value'')
             | Some token_data \<Rightarrow> subscript token_data ''access_token''))"
  by (simp add: get_access_token_def raise_for_status_def response_json_def
      split: option.splits)

text \<open>Status 401 and status 200 with a token in the body.\<close>

theorem get_access_token_http_errors_witness:
  "token_reply (token_world 401 None) = Inr \<lparr>status_code = 401, body = None\<rparr> \<and>
   get_access_token (token_world 401 None) ''https://auth.example/token'' ''id'' ''secret'' =
     ([TokenHint401], Inl (HTTPError 401 ''Client Error'')) \<and>
   get_access_token (token_world 200 (Some (JObj [(''access_token'', JStr ''t0'')])))
       ''https://auth.example/token'' ''id'' ''secret'' = ([], Inr (JStr ''t0''))"
proof -
  have a: "token_reply (token_world 401 None) = Inr \<lparr>status_code = 401, body = None\<rparr>"
    by (simp add: token_world_def)
  have b: "token_reply (token_world 200 (Some (JObj [(''access_token'', JStr ''t0'')]))) =
             Inr \<lparr>status_code = 200, body = Some (JObj [(''access_token'', JStr ''t0'')])\<rparr>"
    by (simp add: token_world_def)
  from get_access_token_http_errors[of "token_world 401 None" _ "''https://auth.example/token''"
         "''id''" "''secret''" "\<lparr>status_code = 401, body = None\<rparr>"]
       get_access_token_http_errors[of
         "token_world 200 (Some (JObj [(''access_token'', JStr ''t0'')]))" _
         "''https://auth.example/token''" "''id''" "''secret''"
         "\<lparr>status_code = 200, body = Some (JObj [(''access_token'', JStr ''t0'')])\<rparr>"]
       a b
  show ?thesis by (simp add: http_error_message_def)
qed

text \<open>
  Against claim C8 as stated: status 401 raises the same kind of exception as status 403,
  an \<open>HTTPError\<close> that differs in its status only; and status 300, which is not 2xx, raises
  nothing: the token of the body is returned.
\<close>

theorem get_access_token_401_is_http_error_and_300_returns:
  "snd (get_access_token (token_world 401 None) ''https://auth.example/token'' ''id'' ''secret'')
     = Inl (HTTPError 401 ''Client Error'') \<and>
   snd (get_access_token (token_world 403 None) ''https://auth.example/token'' ''id'' ''secret'')
     = Inl (HTTPError 403 ''Client Error'') \<and>
   snd (get_access_token (token_world 300 (Some (JObj [(''access_token'', JStr ''t0'')])))
          ''https://auth.example/token'' ''id'' ''secret'')
     = Inr (JStr ''t0'')"
  by (simp add: get_access_token_def token_world_def raise_for_status_def response_json_def
      http_error_message_def)

lemma fs_execute_frame:
  "fs_execute w = (r, w') \<Longrightarrow>
     job_logs w' = job_logs w \<and> db_faults w' = db_faults w \<and> clock w' = clock w \<and>
     out_files w' = out_files w \<and> out_dirs w' = out_dirs w"
  by (auto simp: fs_execute_def split: list.splits)

lemma fs_execute_no_faults:
  "fs_faults w = [] \<Longrightarrow> fs_execute w = (None, w)"
  by (simp add: fs_execute_def)

lemma write_rows_arrays:
  "write_rows (map JArr rows) = (rows, None)"
  by (induction rows) simp_all

text \<open>
  Claim C6. \<open>save_data_to_csv\<close> returns \<open>None\<close> and leaves the world as it was, no file
  created, for a null snapshot, for \<open>{}\<close>, for \<open>{"states": []}\<close>, for every object
  without the key \<open>states\<close> and for every object whose \<open>states\<close> is empty or null. For
  every snapshot whose \<open>states\<close> is a non-empty array of
  rows it returns, when the filesystem takes the directory and the file, the path
  \<open>states_{job_name}_{timestamp}.csv\<close> in the output directory, and the file at that path
  holds the header record followed by the rows as they are: one record more than
  \<open>states\<close> has rows.
\<close>

theorem save_data_to_csv_null_or_one_record_per_state:
  "save_data_to_csv L w JNull output_dir job_name = (w, Inr None) \<and>
   save_data_to_csv L w (JObj []) output_dir job_name = (w, Inr None) \<and>
   save_data_to_csv L w (JObj [(''states'', JArr [])]) output_dir job_name = (w, Inr None) \<and>
   (map_of kv ''states'' = None \<longrightarrow>
      save_data_to_csv L w (JObj kv) output_dir job_name = (w, Inr None)) \<and>
   (map_of kv ''states'' = Some v \<and> \<not> truthy v \<longrightarrow>
      save_data_to_csv L w (JObj kv) output_dir job_name = (w, Inr None)) \<and>
   (map_of kv ''states'' = Some (JArr (map JArr rows)) \<and> rows \<noteq> [] \<and> fs_faults w = [] \<longrightarrow>
      (\<exists>w' records.
          save_data_to_csv L w (JObj kv) output_dir job_name =
            (w', Inr (Some (path_join output_dir
                (''states_'' @ job_name @ ''_'' @ strftime L (clock w) @ ''.csv'')))) \<and>
          map_of (out_files w') (path_join output_dir
                (''states_'' @ job_name @ ''_'' @ strftime L (clock w) @ ''.csv''))
            = Some records \<and>
          records = map JStr csv_header # rows \<and>
          length records = length (map JArr rows) + 1))"
proof (intro conjI impI)
  show "save_data_to_csv L w JNull output_dir job_name = (w, Inr None)"
    by (simp add: save_data_to_csv_def)
  show "save_data_to_csv L w (JObj []) output_dir job_name = (w, Inr None)"
    by (simp add: save_data_to_csv_def)
  show "save_data_to_csv L w (JObj [(''states'', JArr [])]) output_dir job_name = (w, Inr None)"
    by (simp add: save_data_to_csv_def)
next
  assume n: "map_of kv ''states'' = None"
  then have "''states'' \<notin> fst ` set kv" by (simp add: map_of_eq_None_iff)
  then show "save_data_to_csv L w (JObj kv) output_dir job_name = (w, Inr None)"
    by (simp add: save_data_to_csv_def)
next
  assume h: "map_of kv ''states'' = Some v \<and> \<not> truthy v"
  then have k: "''states'' \<in> fst ` set kv" "kv \<noteq> []"
    by (auto dest: map_of_SomeD intro: rev_image_eqI)
  show "save_data_to_csv L w (JObj kv) output_dir job_name = (w, Inr None)"
    using h k by (simp add: save_data_to_csv_def)
next
  assume h: "map_of kv ''states'' = Some (JArr (map JArr rows)) \<and> rows \<noteq> [] \<and> fs_faults w = []"
  then have k: "''states'' \<in> fst ` set kv" "kv \<noteq> []"
    by (auto dest: map_of_SomeD intro: rev_image_eqI)
  let ?p = "path_join output_dir (''states_'' @ job_name @ ''_'' @ strftime L (clock w) @ ''.csv'')"
  have f: "fs_execute w = (None, w)" using h by (simp add: fs_execute_no_faults)
  have f2: "fs_execute (w\<lparr>out_dirs := output_dir # out_dirs w\<rparr>)
              = (None, w\<lparr>out_dirs := output_dir # out_dirs w\<rparr>)"
    using h by (simp add: fs_execute_no_faults)
  show "\<exists>w' records. save_data_to_csv L w (JObj kv) output_dir job_name = (w', Inr (Some ?p)) \<and>
            map_of (out_files w') ?p = Some records \<and>
            records = map JStr csv_header # rows \<and>
            length records = length (map JArr rows) + 1"
    using h k f f2
    by (simp add: save_data_to_csv_def Let_def write_rows_arrays update_conv')
qed

text \<open>The snapshot of two state vectors gives a file of three records.\<close>

theorem save_data_to_csv_null_or_one_record_per_state_witness:
  "map_of two_states ''states'' = Some (JArr (map JArr two_state_rows)) \<and>
   two_state_rows \<noteq> [] \<and> fs_faults blank_world = [] \<and>
   (\<exists>w' records.
       save_data_to_csv example_lib blank_world (JObj two_states) ''data'' ''crawl_eu'' =
         (w', Inr (Some ''data/states_crawl_eu_19700101_000000.csv'')) \<and>
       map_of (out_files w') ''data/states_crawl_eu_19700101_000000.csv'' = Some records \<and>
       records = map JStr csv_header # two_state_rows \<and> length records = 3)"
proof -
  have a: "map_of two_states ''states'' = Some (JArr (map JArr two_state_rows))"
    by (simp add: two_states_def)
  have b: "two_state_rows \<noteq> []" by (simp add: two_state_rows_def)
  have c: "fs_faults blank_world = []" by (simp add: blank_world_def)
  have l: "length two_state_rows = 2" by (simp add: two_state_rows_def)
  have p: "path_join ''data'' (''states_'' @ ''crawl_eu'' @ ''_'' @
             strftime example_lib (clock blank_world) @ ''.csv'')
           = ''data/states_crawl_eu_19700101_000000.csv''"
    by (simp add: path_join_def example_lib_def)
  from save_data_to_csv_null_or_one_record_per_state
         [of example_lib blank_world "''data''" "''crawl_eu''" two_states _ two_state_rows]
  have "\<exists>w' records.
       save_data_to_csv example_lib blank_world (JObj two_states) ''data'' ''crawl_eu'' =
         (w', Inr (Some ''data/states_crawl_eu_19700101_000000.csv'')) \<and>
       map_of (out_files w') ''data/states_crawl_eu_19700101_000000.csv'' = Some records \<and>
       records = map JStr csv_header # two_state_rows \<and> length records = 3"
    using a b c l unfolding p by simp
  with a b c show ?thesis by simp
qed

lemma save_data_to_csv_frame:
  assumes "save_data_to_csv L w js d j = (w', r)"
  shows "job_logs w' = job_logs w \<and> db_faults w' = db_faults w \<and> clock w' = clock w"
  using assms
  by (auto simp: save_data_to_csv_def Let_def
      split: if_splits sum.splits bool.splits prod.splits option.splits
      dest!: fs_execute_frame)

lemma fetch_and_save_frame:
  assumes "fetch_and_save L w cfg url j = (w', r)"
  shows "job_logs w' = job_logs w \<and> db_faults w' = db_faults w \<and> clock w' = clock w"
  using assms
  by (auto simp: fetch_and_save_def split: sum.splits dest: save_data_to_csv_frame)

lemma log_job_start_Inr:
  assumes "log_job_start w j = (w3, Inr log_id)"
  shows "log_id = int (Suc (job_logs_seq w))"
    "job_logs w3 = job_logs w @
       [\<lparr>jl_log_id = log_id, jl_job_name = j, jl_start_time = clock w, jl_end_time = None,
         jl_status = ''STARTED'', jl_message = None\<rparr>]"
  using assms
  by (auto simp: log_job_start_def db_execute_def new_job_log_def next_log_id_def
      split: list.splits option.splits)

lemma log_job_end_ok:
  assumes "fst (db_execute w) = None"
  shows "job_logs (log_job_end w log_id st m) = map (set_job_log log_id st m (clock w)) (job_logs w)"
  using assms
  by (auto simp: log_job_end_def db_execute_def split: list.splits option.splits)

lemma db_execute_same_faults:
  "db_faults w4 = db_faults w3 \<Longrightarrow> fst (db_execute w4) = fst (db_execute w3)"
  by (simp add: db_execute_def split: list.splits)

text \<open>What the rest of \<open>main\<close> writes to the job log when the closing write goes through.\<close>

lemma run_logged_job_logs:
  assumes e: "fst (db_execute w3) = None" and n: "log_id \<noteq> - 1"
  shows "\<exists>st m. job_logs (run_logged_job L w3 log_id cfg url j)
                  = map (set_job_log log_id st m (clock w3)) (job_logs w3) \<and>
                (st = ''COMPLETED'' \<or> st = ''FAILED'') \<and>
                (st = ''FAILED'' \<longleftrightarrow> (\<exists>x. snd (fetch_and_save L w3 cfg url j) = Inl x)) \<and>
                (\<forall>x. snd (fetch_and_save L w3 cfg url j) = Inl x \<longrightarrow> m = Some (str_exn x))"
proof -
  obtain w4 r where fs: "fetch_and_save L w3 cfg url j = (w4, r)"
    by (cases "fetch_and_save L w3 cfg url j")
  note fr = fetch_and_save_frame[OF fs]
  have e4: "fst (db_execute w4) = None" using e db_execute_same_faults[of w4 w3] fr by simp
  have c4: "clock w4 = clock w3" using fr by simp
  have j4: "job_logs w4 = job_logs w3" using fr by simp
  show ?thesis
  proof (cases r)
    case (Inl x)
    have "job_logs (run_logged_job L w3 log_id cfg url j)
            = map (set_job_log log_id ''FAILED'' (Some (str_exn x)) (clock w3)) (job_logs w3)"
      using fs Inl n by (simp add: run_logged_job_def log_failure_def log_job_end_ok[OF e4] c4 j4)
    then show ?thesis using fs Inl by auto
  next
    case (Inr p)
    have "\<exists>m. log_success w4 log_id p = log_job_end w4 log_id ''COMPLETED'' m"
      by (cases p) (auto simp: log_success_def)
    then obtain m where "log_success w4 log_id p = log_job_end w4 log_id ''COMPLETED'' m" by blast
    then have "job_logs (run_logged_job L w3 log_id cfg url j)
            = map (set_job_log log_id ''COMPLETED'' m (clock w3)) (job_logs w3)"
      using fs Inr by (simp add: run_logged_job_def log_job_end_ok[OF e4] c4 j4)
    then show ?thesis using fs Inr by auto
  qed
qed

text \<open>
  Claim C7. Take a run of \<open>main\<close> that reads the job and the token URL and in which
  \<open>log_job_start\<close> returns \<open>log_id\<close>. Right after \<open>log_job_start\<close> the job log has one row
  more, with that id, no end time and status \<open>STARTED\<close>. When the closing write to the
  job log goes through, then after \<open>main\<close> the log has the same rows, and that row has an
  end time and is \<open>FAILED\<close> when the token, the API call or the file raised, with the
  text of the exception as its message, and \<open>COMPLETED\<close> when none did; no row with that
  id is still \<open>STARTED\<close>.
\<close>

theorem extract_main_closes_job_log:
  assumes c: "control_conn_error w = None"
    and j: "get_job_config w job_name = (w1, Inr job_config)"
    and u: "get_system_config w1 ''opensky_token_url'' = (w2, Inr token_url)"
    and s: "log_job_start w2 job_name = (w3, Inr log_id)"
    and e: "fst (db_execute w3) = None"
  shows "job_logs w3 = job_logs w2 @
           [\<lparr>jl_log_id = log_id, jl_job_name = job_name, jl_start_time = clock w2,
             jl_end_time = None, jl_status = ''STARTED'', jl_message = None\<rparr>] \<and>
         length (job_logs (extract_main L w job_name)) = length (job_logs w3) \<and>
         jl_log_id (last (job_logs (extract_main L w job_name))) = log_id \<and>
         jl_end_time (last (job_logs (extract_main L w job_name))) = Some (clock w3) \<and>
         (jl_status (last (job_logs (extract_main L w job_name))) = ''FAILED'' \<longleftrightarrow>
            (\<exists>x. snd (fetch_and_save L w3 job_config token_url job_name) = Inl x)) \<and>
         (jl_status (last (job_logs (extract_main L w job_name))) = ''COMPLETED'' \<longleftrightarrow>
            (\<exists>p. snd (fetch_and_save L w3 job_config token_url job_name) = Inr p)) \<and>
         (\<forall>x. snd (fetch_and_save L w3 job_config token_url job_name) = Inl x \<longrightarrow>
            jl_message (last (job_logs (extract_main L w job_name)))
              = final_message (Some (str_exn x))) \<and>
         (\<forall>r\<in>set (job_logs (extract_main L w job_name)).
            jl_log_id r = log_id \<longrightarrow> jl_status r = ''COMPLETED'' \<or> jl_status r = ''FAILED'')"
proof -
  note st = log_job_start_Inr[OF s]
  have n: "log_id \<noteq> - 1" using st(1) by simp
  have m: "extract_main L w job_name = run_logged_job L w3 log_id job_config token_url job_name"
    using c j u s by (simp add: extract_main_def)
  from run_logged_job_logs[OF e n, of L job_config token_url job_name] obtain st' msg where
    r: "job_logs (run_logged_job L w3 log_id job_config token_url job_name)
          = map (set_job_log log_id st' msg (clock w3)) (job_logs w3)"
    and k: "st' = ''COMPLETED'' \<or> st' = ''FAILED''"
    and f: "st' = ''FAILED'' \<longleftrightarrow>
              (\<exists>x. snd (fetch_and_save L w3 job_config token_url job_name) = Inl x)"
    and g: "\<forall>x. snd (fetch_and_save L w3 job_config token_url job_name) = Inl x
              \<longrightarrow> msg = Some (str_exn x)"
    by blast
  let ?new = "\<lparr>jl_log_id = log_id, jl_job_name = job_name, jl_start_time = clock w2,
               jl_end_time = None, jl_status = ''STARTED'', jl_message = None\<rparr>"
  have la: "last (job_logs (extract_main L w job_name)) = set_job_log log_id st' msg (clock w3) ?new"
    unfolding m r st(2) by (simp add: last_map)
  have l1: "jl_log_id (last (job_logs (extract_main L w job_name))) = log_id"
    and l2: "jl_end_time (last (job_logs (extract_main L w job_name))) = Some (clock w3)"
    and l3: "jl_status (last (job_logs (extract_main L w job_name))) = st'"
    and l4: "jl_message (last (job_logs (extract_main L w job_name))) = final_message msg"
    unfolding la by (simp_all add: set_job_log_def)
  have cf: "st' = ''COMPLETED'' \<longleftrightarrow>
              (\<exists>p. snd (fetch_and_save L w3 job_config token_url job_name) = Inr p)"
  proof (cases "snd (fetch_and_save L w3 job_config token_url job_name)")
    case (Inl x)
    then have "st' = ''FAILED''" using f by simp
    then show ?thesis using Inl by simp
  next
    case (Inr p)
    then have "st' \<noteq> ''FAILED''" using f by simp
    then show ?thesis using k Inr by simp
  qed
  have all: "\<forall>r\<in>set (job_logs (extract_main L w job_name)).
            jl_log_id r = log_id \<longrightarrow> jl_status r = ''COMPLETED'' \<or> jl_status r = ''FAILED''"
  proof (intro ballI impI)
    fix x assume x: "x \<in> set (job_logs (extract_main L w job_name))" and i: "jl_log_id x = log_id"
    from x obtain x0 where x0: "x = set_job_log log_id st' msg (clock w3) x0"
      unfolding m r by auto
    have "jl_log_id x0 = log_id" using i unfolding x0 by (simp add: set_job_log_def split: if_splits)
    then have "jl_status x = st'" unfolding x0 by (simp add: set_job_log_def)
    then show "jl_status x = ''COMPLETED'' \<or> jl_status x = ''FAILED''" using k by simp
  qed
  have len: "length (job_logs (extract_main L w job_name)) = length (job_logs w3)"
    unfolding m r by simp
  have msgs: "\<forall>x. snd (fetch_and_save L w3 job_config token_url job_name) = Inl x \<longrightarrow>
            jl_message (last (job_logs (extract_main L w job_name)))
              = final_message (Some (str_exn x))"
    using g l4 by simp
  show ?thesis
    using st(2) len l1 l2 f cf msgs all unfolding l3 by (intro conjI)
qed

text \<open>
  A run in which the API answers 503: the new row is closed as \<open>FAILED\<close> with the text
  of the error, and the older row is as it was. The same run with a snapshot of two
  state vectors for an answer: the row is closed as \<open>COMPLETED\<close>.
\<close>

theorem extract_main_closes_job_log_witness:
  "control_conn_error job_world = None \<and>
   get_job_config job_world ''crawl_eu'' = (job_world, Inr crawl_job) \<and>
   get_system_config job_world ''opensky_token_url''
     = (job_world, Inr ''https://auth.example/token'') \<and>
   snd (log_job_start job_world ''crawl_eu'') = Inr 2 \<and>
   map jl_status (job_logs (fst (log_job_start job_world ''crawl_eu'')))
     = [''COMPLETED'', ''STARTED''] \<and>
   fst (db_execute (fst (log_job_start job_world ''crawl_eu''))) = None \<and>
   snd (fetch_and_save example_lib (fst (log_job_start job_world ''crawl_eu'')) crawl_job
          ''https://auth.example/token'' ''crawl_eu'') = Inl (HTTPError 503 ''Server Error'') \<and>
   jl_log_id (last (job_logs (extract_main example_lib job_world ''crawl_eu''))) = 2 \<and>
   jl_status (last (job_logs (extract_main example_lib job_world ''crawl_eu''))) = ''FAILED'' \<and>
   jl_message (last (job_logs (extract_main example_lib job_world ''crawl_eu'')))
     = Some ''Server Error'' \<and>
   map jl_status (job_logs (extract_main example_lib job_world ''crawl_eu''))
     = [''COMPLETED'', ''FAILED''] \<and>
   map jl_status (job_logs (extract_main example_lib
       (job_world\<lparr>api_reply := Inr \<lparr>status_code = 200, body = Some (JObj two_states)\<rparr>\<rparr>)
       ''crawl_eu'')) = [''COMPLETED'', ''COMPLETED'']"
proof -
  have c: "control_conn_error job_world = None" by (simp add: job_world_def blank_world_def)
  have j: "get_job_config job_world ''crawl_eu'' = (job_world, Inr crawl_job)"
    by (simp add: get_job_config_def db_execute_def job_world_def blank_world_def)
  have u: "get_system_config job_world ''opensky_token_url''
             = (job_world, Inr ''https://auth.example/token'')"
    by (simp add: get_system_config_def db_execute_def job_world_def blank_world_def)
  have s2: "snd (log_job_start job_world ''crawl_eu'') = Inr 2"
    by (simp add: log_job_start_def new_job_log_def next_log_id_def db_execute_def job_world_def
        blank_world_def)
  then have s: "log_job_start job_world ''crawl_eu''
                  = (fst (log_job_start job_world ''crawl_eu''), Inr 2)"
    by (metis prod.collapse)
  have e: "fst (db_execute (fst (log_job_start job_world ''crawl_eu''))) = None"
    by (simp add: log_job_start_def new_job_log_def next_log_id_def db_execute_def job_world_def
        blank_world_def)
  have q: "map jl_status (job_logs (fst (log_job_start job_world ''crawl_eu'')))
             = [''COMPLETED'', ''STARTED'']"
    by (simp add: log_job_start_def new_job_log_def next_log_id_def db_execute_def job_world_def
        blank_world_def)
  have f: "snd (fetch_and_save example_lib (fst (log_job_start job_world ''crawl_eu'')) crawl_job
             ''https://auth.example/token'' ''crawl_eu'') = Inl (HTTPError 503 ''Server Error'')"
    by (simp add: log_job_start_def new_job_log_def next_log_id_def db_execute_def job_world_def
        blank_world_def
        fetch_and_save_def dict_get_def crawl_job_def get_access_token_def raise_for_status_def
        response_json_def call_opensky_api_def http_error_message_def)
  note th = extract_main_closes_job_log[OF c j u s e, of example_lib]
  note t3 = th[THEN conjunct2, THEN conjunct2, THEN conjunct1]
  note t5 = th[THEN conjunct2, THEN conjunct2, THEN conjunct2, THEN conjunct2, THEN conjunct1]
  note t7 = th[THEN conjunct2, THEN conjunct2, THEN conjunct2, THEN conjunct2, THEN conjunct2,
      THEN conjunct2, THEN conjunct1, rule_format, OF f]
  have g1: "jl_log_id (last (job_logs (extract_main example_lib job_world ''crawl_eu''))) = 2"
    by (rule t3)
  have g2: "jl_status (last (job_logs (extract_main example_lib job_world ''crawl_eu'')))
              = ''FAILED''"
    unfolding t5 using f by simp
  have g3: "jl_message (last (job_logs (extract_main example_lib job_world ''crawl_eu'')))
              = Some ''Server Error''"
    unfolding t7 by (simp add: final_message_def)
  have a: "map jl_status (job_logs (extract_main example_lib job_world ''crawl_eu''))
             = [''COMPLETED'', ''FAILED'']"
    by (simp add: extract_main_def run_logged_job_def log_failure_def log_job_end_def
        set_job_log_def final_message_def
        get_job_config_def get_system_config_def
        log_job_start_def new_job_log_def next_log_id_def db_execute_def job_world_def
        blank_world_def
        fetch_and_save_def dict_get_def crawl_job_def get_access_token_def raise_for_status_def
        response_json_def call_opensky_api_def http_error_message_def)
  have b: "map jl_status (job_logs (extract_main example_lib
       (job_world\<lparr>api_reply := Inr \<lparr>status_code = 200, body = Some (JObj two_states)\<rparr>\<rparr>)
       ''crawl_eu'')) = [''COMPLETED'', ''COMPLETED'']"
    by (simp add: extract_main_def run_logged_job_def log_failure_def log_success_def
        log_job_end_def set_job_log_def final_message_def
        get_job_config_def get_system_config_def
        log_job_start_def new_job_log_def next_log_id_def db_execute_def job_world_def
        blank_world_def
        fetch_and_save_def dict_get_def crawl_job_def get_access_token_def raise_for_status_def
        response_json_def call_opensky_api_def http_error_message_def
        save_data_to_csv_def two_states_def fs_execute_def Let_def write_rows_arrays
        split: prod.splits)
  show ?thesis
    using c j u s2 q e f g1 g2 g3 a b by (intro conjI)
qed

end
